theory Spec2Isabelle
  imports Main "HOL-Library.Sublist" "HOL-Library.Monad_Syntax"
begin


section \<open>Strings and slash-separated paths\<close>

text \<open>
  Go strings are byte sequences; they are modelled as \<open>string\<close>. The two predicates of
  package \<open>strings\<close> that the Maven wrapper uses are prefix and substring tests.
\<close>

definition strings_HasPrefix :: "string \<Rightarrow> string \<Rightarrow> bool" where
  "strings_HasPrefix s pre = prefix pre s"

definition strings_Contains :: "string \<Rightarrow> string \<Rightarrow> bool" where
  "strings_Contains s substr = sublist substr s"

text \<open>
  \<open>path.Dir\<close> of the Go standard library: everything up to the last slash, cleaned
  lexically (empty and \<open>.\<close> elements dropped, \<open>..\<close> cancelling the element before it,
  the empty result written \<open>.\<close>).
\<close>

fun splitSlash :: "string \<Rightarrow> string list" where
  "splitSlash [] = [[]]"
| "splitSlash (c # cs) =
     (if c = CHR ''/'' then [] # splitSlash cs
      else (case splitSlash cs of [] \<Rightarrow> [[c]] | e # es \<Rightarrow> (c # e) # es))"

fun joinSlash :: "string list \<Rightarrow> string" where
  "joinSlash [] = []"
| "joinSlash [e] = e"
| "joinSlash (e # es) = e @ ''/'' @ joinSlash es"

definition rooted :: "string \<Rightarrow> bool" where
  "rooted p = (case p of [] \<Rightarrow> False | c # _ \<Rightarrow> c = CHR ''/'')"

definition cleanStep :: "bool \<Rightarrow> string \<Rightarrow> string list \<Rightarrow> string list" where
  "cleanStep isRooted e out =
     (if e = [] \<or> e = ''.'' then out
      else if e = ''..'' then
        (case out of
           [] \<Rightarrow> (if isRooted then [] else [''..''])
         | t # ts \<Rightarrow> (if t = ''..'' then ''..'' # out else ts))
      else e # out)"

definition path_Clean :: "string \<Rightarrow> string" where
  "path_Clean p =
     (if p = [] then ''.''
      else
        (let body = joinSlash (rev (fold (cleanStep (rooted p)) (splitSlash p) []))
         in if rooted p then CHR ''/'' # body
            else if body = [] then ''.'' else body))"

definition path_Dir :: "string \<Rightarrow> string" where
  "path_Dir p = path_Clean (rev (dropWhile (\<lambda>c. c \<noteq> CHR ''/'') (rev p)))"

section \<open>Errors\<close>

text \<open>
  A Go \<open>error\<close> is \<open>error option\<close>, \<open>None\<close> for \<open>nil\<close>. Errors made with
  \<open>fmt.Errorf(... %w ...)\<close> keep the error they wrap.
\<close>

datatype error =
    External string
  | ParametersFailed error
  | RunFailed "string list" error
  | NotResolved string string
  | PomFileEmpty
  | InstallFailed error
  | DownloadFailed string string error

section \<open>Options\<close>

text \<open>
  The two option structs. A \<open>nil\<close> slice and an empty slice are both the empty list:
  the code only appends them.
\<close>

record ExecuteOptions =
  PomPath :: string
  ProjectSettingsFile :: string
  GlobalSettingsFile :: string
  M2Path :: string
  Goals :: "string list"
  Defines :: "string list"
  Flags :: "string list"
  LogSuccessfulMavenTransfers :: bool
  ReturnStdout :: bool

record EvaluateOptions =
  PomPath :: string
  ProjectSettingsFile :: string
  GlobalSettingsFile :: string
  M2Path :: string

section \<open>The process, its writers and the injected interfaces\<close>

text \<open>
  A writer is the log writer (\<open>log.Writer()\<close>), a \<open>bytes.Buffer\<close> allocated in the
  store of buffers, or an \<open>io.MultiWriter\<close> that passes every write to each of its
  writers in turn. Writes to the log writer and to a buffer succeed.
\<close>

datatype writer = LogWriter | BufferWriter nat | MultiWriter writer writer

datatype stream = ToStdout | ToStderr

text \<open>
  What the wrapper does to the world outside: every process it starts (with the directory
  it starts in), every download and every change of directory it asks for. The trace of
  these events is kept by the model, not by the program, so that a claim can speak of how
  often and in which order they happen.
\<close>

datatype event =
    Run string string "string list"
  | Download string string
  | Chdir string

record 'w state =
  cwd :: string
  world :: 'w
  stdoutWriter :: writer
  stderrWriter :: writer
  buffers :: "string list"
  logged :: "string list"
  trace :: "event list"

text \<open>
  \<open>mavenExecRunner\<close> is injected. Its \<open>Stdout\<close> and \<open>Stderr\<close> methods store a writer;
  \<open>RunExecutable\<close> is given by its behaviour: from the executable, its arguments, the
  working directory and the world it yields the chunks the process writes (each to its
  standard output or standard error), the error and the new world.
\<close>

type_synonym 'w mavenExecRunner =
  "string \<Rightarrow> string list \<Rightarrow> string \<Rightarrow> 'w \<Rightarrow> (stream \<times> string) list \<times> error option \<times> 'w"

fun writeTo :: "writer \<Rightarrow> string \<Rightarrow> 'w state \<Rightarrow> 'w state" where
  "writeTo LogWriter b s = s\<lparr>logged := logged s @ [b]\<rparr>"
| "writeTo (BufferWriter i) b s = s\<lparr>buffers := (buffers s)[i := buffers s ! i @ b]\<rparr>"
| "writeTo (MultiWriter w1 w2) b s = writeTo w2 b (writeTo w1 b s)"

definition Stdout :: "writer \<Rightarrow> 'w state \<Rightarrow> 'w state" where
  "Stdout out s = s\<lparr>stdoutWriter := out\<rparr>"

definition Stderr :: "writer \<Rightarrow> 'w state \<Rightarrow> 'w state" where
  "Stderr err s = s\<lparr>stderrWriter := err\<rparr>"

definition emit :: "stream \<times> string \<Rightarrow> 'w state \<Rightarrow> 'w state" where
  "emit chunk s =
     writeTo (case fst chunk of ToStdout \<Rightarrow> stdoutWriter s | ToStderr \<Rightarrow> stderrWriter s)
       (snd chunk) s"

definition RunExecutable ::
  "'w mavenExecRunner \<Rightarrow> string \<Rightarrow> string list \<Rightarrow> 'w state \<Rightarrow> error option \<times> 'w state" where
  "RunExecutable command e p s =
     (case command e p (cwd s) (world s) of
        (out, err, w') \<Rightarrow>
          (err, fold emit out (s\<lparr>world := w', trace := trace s @ [Run (cwd s) e p]\<rparr>)))"

text \<open>
  \<open>mavenUtils\<close> is injected too. Each method is given by its behaviour on the working
  directory and the world; \<open>chdir\<close> also yields the working directory it leaves.
\<close>

record 'w mavenUtils =
  FileExists :: "string \<Rightarrow> string \<Rightarrow> 'w \<Rightarrow> bool \<times> error option"
  DownloadFile :: "string \<Rightarrow> string \<Rightarrow> string \<Rightarrow> 'w \<Rightarrow> error option \<times> 'w"
  glob :: "string \<Rightarrow> string \<Rightarrow> 'w \<Rightarrow> string list \<times> error option"
  getwd :: "string \<Rightarrow> 'w \<Rightarrow> string \<times> error option"
  chdir :: "string \<Rightarrow> string \<Rightarrow> 'w \<Rightarrow> error option \<times> string"

text \<open>
  The packages behind \<open>newUtils()\<close> (\<open>piperutils.Files\<close>, \<open>piperhttp.Client\<close>,
  \<open>doublestar\<close>, \<open>os\<close>) are outside this package and are parameters. \<open>os.Getwd\<close> reports
  the working directory and \<open>os.Chdir\<close> moves to the named directory; only whether they
  fail is a parameter. A relative name is taken from the working directory and the result
  is cleaned, so that \<open>.\<close> names the working directory itself; a rooted name is taken as it
  is (the source passes no other rooted name than the one \<open>os.Getwd\<close> reported).
\<close>

record 'w deps =
  Files_FileExists :: "string \<Rightarrow> string \<Rightarrow> 'w \<Rightarrow> bool \<times> error option"
  Client_DownloadFile :: "string \<Rightarrow> string \<Rightarrow> string \<Rightarrow> 'w \<Rightarrow> error option \<times> 'w"
  doublestar_Glob :: "string \<Rightarrow> string \<Rightarrow> 'w \<Rightarrow> string list \<times> error option"
  os_Getwd_error :: "string \<Rightarrow> 'w \<Rightarrow> error option"
  os_Chdir_error :: "string \<Rightarrow> string \<Rightarrow> 'w \<Rightarrow> error option"

definition os_Getwd :: "'w deps \<Rightarrow> string \<Rightarrow> 'w \<Rightarrow> string \<times> error option" where
  "os_Getwd d c w =
     (case os_Getwd_error d c w of None \<Rightarrow> (c, None) | Some e \<Rightarrow> ('''', Some e))"

definition os_Chdir :: "'w deps \<Rightarrow> string \<Rightarrow> string \<Rightarrow> 'w \<Rightarrow> error option \<times> string" where
  "os_Chdir d dir c w =
     (case os_Chdir_error d dir c w of
        None \<Rightarrow> (None, if rooted dir then dir else path_Clean (c @ ''/'' @ dir))
      | Some e \<Rightarrow> (Some e, c))"

definition newUtils :: "'w deps \<Rightarrow> 'w mavenUtils" where
  "newUtils d =
     \<lparr>FileExists = Files_FileExists d,
      DownloadFile = Client_DownloadFile d,
      glob = doublestar_Glob d,
      getwd = os_Getwd d,
      chdir = os_Chdir d\<rparr>"

section \<open>Building the Maven command line\<close>

text \<open>
  Calls to the logger (\<open>log.Entry()\<close>) are left out of every function: they return nothing
  and change nothing that the functions read. The header and cookie arguments of
  \<open>DownloadFile\<close>, which the source passes as \<open>nil\<close>, are left out as well.
\<close>

definition mavenExecutable :: string where
  "mavenExecutable = ''mvn''"

definition downloadSettingsFromURL ::
  "string \<Rightarrow> string \<Rightarrow> 'w mavenUtils \<Rightarrow> 'w state \<Rightarrow> error option \<times> 'w state" where
  "downloadSettingsFromURL url filename utils s =
     (if fst (FileExists utils filename (cwd s) (world s)) then (None, s)
      else
        (case DownloadFile utils url filename (cwd s) (world s) of
           (err, w') \<Rightarrow>
             (let s' = s\<lparr>world := w', trace := trace s @ [Download url filename]\<rparr>
              in case err of
                   Some e \<Rightarrow> (Some (DownloadFailed url filename e), s')
                 | None \<Rightarrow> (None, s'))))"

definition downloadSettingsIfURL ::
  "string \<Rightarrow> string \<Rightarrow> 'w mavenUtils \<Rightarrow> 'w state \<Rightarrow> (string \<times> error option) \<times> 'w state" where
  "downloadSettingsIfURL settingsFileOption settingsFile utils s =
     (if strings_HasPrefix settingsFileOption ''http:''
         \<or> strings_HasPrefix settingsFileOption ''https:''
      then
        (case downloadSettingsFromURL settingsFileOption settingsFile utils s of
           (Some err, s') \<Rightarrow> (('''', Some err), s')
         | (None, s') \<Rightarrow> ((settingsFile, None), s'))
      else ((settingsFileOption, None), s))"

definition getParametersFromOptions ::
  "ExecuteOptions \<Rightarrow> 'w mavenUtils \<Rightarrow> 'w state \<Rightarrow> (string list \<times> error option) \<times> 'w state" where
  "getParametersFromOptions options utils s =
     (let parameters = [] in
      case (if ExecuteOptions.GlobalSettingsFile options \<noteq> ''''
            then downloadSettingsIfURL (ExecuteOptions.GlobalSettingsFile options)
                   ''.pipeline/mavenGlobalSettings.xml'' utils s
            else (('''', None), s)) of
        ((_, Some err), s1) \<Rightarrow> (([], Some err), s1)
      | ((globalSettingsFileName, None), s1) \<Rightarrow>
     (let parameters =
            (if ExecuteOptions.GlobalSettingsFile options \<noteq> ''''
             then parameters @ [''--global-settings'', globalSettingsFileName]
             else parameters) in
      case (if ExecuteOptions.ProjectSettingsFile options \<noteq> ''''
            then downloadSettingsIfURL (ExecuteOptions.ProjectSettingsFile options)
                   ''.pipeline/mavenProjectSettings.xml'' utils s1
            else (('''', None), s1)) of
        ((_, Some err), s2) \<Rightarrow> (([], Some err), s2)
      | ((projectSettingsFileName, None), s2) \<Rightarrow>
     (let parameters =
            (if ExecuteOptions.ProjectSettingsFile options \<noteq> ''''
             then parameters @ [''--settings'', projectSettingsFileName]
             else parameters);
          parameters =
            (if ExecuteOptions.M2Path options \<noteq> ''''
             then parameters @ [''-Dmaven.repo.local='' @ ExecuteOptions.M2Path options]
             else parameters);
          parameters =
            (if ExecuteOptions.PomPath options \<noteq> ''''
             then parameters @ [''--file'', ExecuteOptions.PomPath options]
             else parameters);
          parameters = parameters @ Flags options;
          parameters = parameters @ Defines options;
          parameters =
            (if \<not> LogSuccessfulMavenTransfers options
             then parameters @
               [''-Dorg.slf4j.simpleLogger.log.org.apache.maven.cli.transfer.Slf4jMavenTransferListener=warn'']
             else parameters);
          parameters = parameters @ [''--batch-mode''];
          parameters = parameters @ Goals options
      in ((parameters, None), s2))))"

section \<open>Running Maven\<close>

text \<open>
  \<open>evaluateStdOut\<close> yields the buffer that will hold the standard output (\<open>None\<close> for
  the \<open>nil\<close> pointer, otherwise the index of a fresh empty buffer) and the writer to give
  to the runner.
\<close>

definition evaluateStdOut ::
  "ExecuteOptions \<Rightarrow> 'w state \<Rightarrow> (nat option \<times> writer) \<times> 'w state" where
  "evaluateStdOut options s =
     (let stdOut = LogWriter in
      if ReturnStdout options then
        (let stdOutBuf = length (buffers s);
             s' = s\<lparr>buffers := buffers s @ ['''']\<rparr>
         in ((Some stdOutBuf, MultiWriter stdOut (BufferWriter stdOutBuf)), s'))
      else ((None, stdOut), s))"

definition Execute ::
  "'w deps \<Rightarrow> ExecuteOptions \<Rightarrow> 'w mavenExecRunner \<Rightarrow> 'w state
     \<Rightarrow> (string \<times> error option) \<times> 'w state" where
  "Execute d options command s =
     (case evaluateStdOut options s of
        ((stdOutBuf, stdOut), s1) \<Rightarrow>
     (let s2 = Stdout stdOut s1;
          s3 = Stderr LogWriter s2 in
      case getParametersFromOptions options (newUtils d) s3 of
        ((_, Some err), s4) \<Rightarrow> (('''', Some (ParametersFailed err)), s4)
      | ((parameters, None), s4) \<Rightarrow>
     (case RunExecutable command mavenExecutable parameters s4 of
        (Some err, s5) \<Rightarrow>
          (let commandLine = [mavenExecutable] @ parameters
           in (('''', Some (RunFailed commandLine err)), s5))
      | (None, s5) \<Rightarrow>
          (case stdOutBuf of
             None \<Rightarrow> (('''', None), s5)
           | Some b \<Rightarrow> ((buffers s5 ! b, None), s5)))))"

definition Evaluate ::
  "'w deps \<Rightarrow> EvaluateOptions \<Rightarrow> string \<Rightarrow> 'w mavenExecRunner \<Rightarrow> 'w state
     \<Rightarrow> (string \<times> error option) \<times> 'w state" where
  "Evaluate d options expression command s =
     (let expressionDefine = ''-Dexpression='' @ expression;
          executeOptions =
            \<lparr>ExecuteOptions.PomPath = EvaluateOptions.PomPath options,
             ProjectSettingsFile = EvaluateOptions.ProjectSettingsFile options,
             GlobalSettingsFile = EvaluateOptions.GlobalSettingsFile options,
             M2Path = EvaluateOptions.M2Path options,
             Goals = [''org.apache.maven.plugins:maven-help-plugin:3.1.0:evaluate''],
             Defines = [expressionDefine, ''-DforceStdout'', ''-q''],
             Flags = [],
             LogSuccessfulMavenTransfers = False,
             ReturnStdout = True\<rparr>
      in case Execute d executeOptions command s of
           ((_, Some err), s') \<Rightarrow> (('''', Some err), s')
         | ((val, None), s') \<Rightarrow>
             (if strings_HasPrefix val ''null object or invalid expression''
              then (('''', Some (NotResolved expression (EvaluateOptions.PomPath options))), s')
              else ((val, None), s')))"

definition InstallFile ::
  "'w deps \<Rightarrow> string \<Rightarrow> string \<Rightarrow> string \<Rightarrow> 'w mavenExecRunner \<Rightarrow> 'w state
     \<Rightarrow> error option \<times> 'w state" where
  "InstallFile d file pomFile m2Path command s =
     (if length pomFile = 0 then (Some PomFileEmpty, s)
      else
        (let defines = [];
             defines =
               (if length file > 0 then
                  (let defines = defines @ [''-Dfile='' @ file];
                       defines =
                         (if strings_Contains file ''.jar''
                          then defines @ [''-Dpackaging=jar''] else defines);
                       defines =
                         (if strings_Contains file ''-classes''
                          then defines @ [''-Dclassifier=classes''] else defines)
                   in defines)
                else defines @ [''-Dfile='' @ pomFile]);
             defines = defines @ [''-DpomFile='' @ pomFile];
             mavenOptionsInstall =
               \<lparr>ExecuteOptions.PomPath = pomFile,
                ProjectSettingsFile = '''',
                GlobalSettingsFile = '''',
                M2Path = m2Path,
                Goals = [''install:install-file''],
                Defines = defines,
                Flags = [],
                LogSuccessfulMavenTransfers = False,
                ReturnStdout = False\<rparr>
         in case Execute d mavenOptionsInstall command s of
              ((_, Some err), s') \<Rightarrow> (Some (InstallFailed err), s')
            | ((_, None), s') \<Rightarrow> (None, s')))"

section \<open>Installing the artifacts of every module\<close>

definition jarFile :: "string \<Rightarrow> string" where
  "jarFile finalName = ''target/'' @ finalName @ ''.jar''"

definition classesJarFile :: "string \<Rightarrow> string" where
  "classesJarFile finalName = ''target/'' @ finalName @ ''-classes.jar''"

definition warFile :: "string \<Rightarrow> string" where
  "warFile finalName = ''target/'' @ finalName @ ''.war''"

definition flattenPom :: "'w deps \<Rightarrow> 'w mavenExecRunner \<Rightarrow> 'w state \<Rightarrow> error option \<times> 'w state" where
  "flattenPom d command s =
     (let mavenOptionsFlatten =
            \<lparr>ExecuteOptions.PomPath = ''pom.xml'',
             ProjectSettingsFile = '''',
             GlobalSettingsFile = '''',
             M2Path = '''',
             Goals = [''flatten:flatten''],
             Defines = [''-Dflatten.mode=resolveCiFriendliesOnly''],
             Flags = [],
             LogSuccessfulMavenTransfers = False,
             ReturnStdout = False\<rparr>
      in case Execute d mavenOptionsFlatten command s of ((_, err), s') \<Rightarrow> (err, s'))"

definition installJarWarArtifacts ::
  "'w deps \<Rightarrow> 'w mavenExecRunner \<Rightarrow> 'w mavenUtils \<Rightarrow> EvaluateOptions \<Rightarrow> 'w state
     \<Rightarrow> error option \<times> 'w state" where
  "installJarWarArtifacts d command utils options s =
     (case Evaluate d options ''project.build.finalName'' command s of
        ((_, Some err), s1) \<Rightarrow> (Some err, s1)
      | ((finalName, None), s1) \<Rightarrow>
     (if finalName = '''' then
        InstallFile d '''' ''pom.xml'' (EvaluateOptions.M2Path options) command s1
      else
     (let jarExists = fst (FileExists utils (jarFile finalName) (cwd s1) (world s1));
          warExists = fst (FileExists utils (warFile finalName) (cwd s1) (world s1));
          classesJarExists =
            fst (FileExists utils (classesJarFile finalName) (cwd s1) (world s1)) in
      case (if jarExists
            then InstallFile d (jarFile finalName) ''pom.xml''
                   (EvaluateOptions.M2Path options) command s1
            else (None, s1)) of
        (Some err, s2) \<Rightarrow> (Some err, s2)
      | (None, s2) \<Rightarrow>
     (case (if warExists
            then InstallFile d (warFile finalName) ''pom.xml''
                   (EvaluateOptions.M2Path options) command s2
            else (None, s2)) of
        (Some err, s3) \<Rightarrow> (Some err, s3)
      | (None, s3) \<Rightarrow>
     (if classesJarExists
      then InstallFile d (classesJarFile finalName) ''pom.xml''
             (EvaluateOptions.M2Path options) command s3
      else (None, s3))))))"

definition callChdir :: "'w mavenUtils \<Rightarrow> string \<Rightarrow> 'w state \<Rightarrow> error option \<times> 'w state" where
  "callChdir utils dir s =
     (case chdir utils dir (cwd s) (world s) of
        (err, c') \<Rightarrow> (err, s\<lparr>cwd := c', trace := trace s @ [Chdir dir]\<rparr>))"

text \<open>The body of the loop over the pom files, for one pom file.\<close>

definition installModule ::
  "'w deps \<Rightarrow> 'w mavenExecRunner \<Rightarrow> EvaluateOptions \<Rightarrow> 'w mavenUtils \<Rightarrow> string \<Rightarrow> string
     \<Rightarrow> 'w state \<Rightarrow> error option \<times> 'w state" where
  "installModule d command options utils oldWorkingDirectory pomFile s =
     (let dir = path_Dir pomFile in
      case callChdir utils dir s of
        (Some err, s1) \<Rightarrow> (Some err, s1)
      | (None, s1) \<Rightarrow>
     (case Evaluate d options ''project.packaging'' command s1 of
        ((_, Some err), s2) \<Rightarrow> (Some err, s2)
      | ((packaging, None), s2) \<Rightarrow>
     (case (if packaging = ''pom''
            then InstallFile d '''' ''pom.xml'' (EvaluateOptions.M2Path options) command s2
            else installJarWarArtifacts d command utils options s2) of
        (Some err, s3) \<Rightarrow> (Some err, s3)
      | (None, s3) \<Rightarrow> callChdir utils oldWorkingDirectory s3)))"

fun installModules ::
  "'w deps \<Rightarrow> 'w mavenExecRunner \<Rightarrow> EvaluateOptions \<Rightarrow> 'w mavenUtils \<Rightarrow> string \<Rightarrow> string list
     \<Rightarrow> 'w state \<Rightarrow> error option \<times> 'w state" where
  "installModules d command options utils oldWorkingDirectory [] s = (None, s)"
| "installModules d command options utils oldWorkingDirectory (pomFile # pomFiles) s =
     (case installModule d command options utils oldWorkingDirectory pomFile s of
        (Some err, s') \<Rightarrow> (Some err, s')
      | (None, s') \<Rightarrow> installModules d command options utils oldWorkingDirectory pomFiles s')"

definition doInstallMavenArtifacts ::
  "'w deps \<Rightarrow> 'w mavenExecRunner \<Rightarrow> EvaluateOptions \<Rightarrow> 'w mavenUtils \<Rightarrow> 'w state
     \<Rightarrow> error option \<times> 'w state" where
  "doInstallMavenArtifacts d command options utils s =
     (case flattenPom d command s of
        (Some err, s1) \<Rightarrow> (Some err, s1)
      | (None, s1) \<Rightarrow>
     (case glob utils ''**/pom.xml'' (cwd s1) (world s1) of
        (_, Some err) \<Rightarrow> (Some err, s1)
      | (pomFiles, None) \<Rightarrow>
     (case getwd utils (cwd s1) (world s1) of
        (_, Some err) \<Rightarrow> (Some err, s1)
      | (oldWorkingDirectory, None) \<Rightarrow>
          installModules d command (options\<lparr>EvaluateOptions.PomPath := ''pom.xml''\<rparr>) utils
            oldWorkingDirectory pomFiles s1)))"

definition InstallMavenArtifacts ::
  "'w deps \<Rightarrow> 'w mavenExecRunner \<Rightarrow> EvaluateOptions \<Rightarrow> 'w state \<Rightarrow> error option \<times> 'w state" where
  "InstallMavenArtifacts d command options s =
     doInstallMavenArtifacts d command options (newUtils d) s"

section \<open>The generated nexusUpload command\<close>

record nexusUploadOptions =
  Version :: string
  Url :: string
  Repository :: string
  GroupID :: string
  ArtifactID :: string
  GlobalSettingsFile :: string
  M2Path :: string
  AdditionalClassifiers :: string
  User :: string
  Password :: string

text \<open>
  A flag is bound to a field of the step configuration by the field's address
  (\<open>&stepConfig.Version\<close>, ...). \<open>jsonName\<close> is the name in the field's struct tag.
\<close>

datatype stepConfigRef =
    Ref_Version | Ref_Url | Ref_Repository | Ref_GroupID | Ref_ArtifactID
  | Ref_GlobalSettingsFile | Ref_M2Path | Ref_AdditionalClassifiers | Ref_User | Ref_Password

fun jsonName :: "stepConfigRef \<Rightarrow> string" where
  "jsonName Ref_Version = ''version''"
| "jsonName Ref_Url = ''url''"
| "jsonName Ref_Repository = ''repository''"
| "jsonName Ref_GroupID = ''groupId''"
| "jsonName Ref_ArtifactID = ''artifactId''"
| "jsonName Ref_GlobalSettingsFile = ''globalSettingsFile''"
| "jsonName Ref_M2Path = ''m2Path''"
| "jsonName Ref_AdditionalClassifiers = ''additionalClassifiers''"
| "jsonName Ref_User = ''user''"
| "jsonName Ref_Password = ''password''"

fun assign :: "stepConfigRef \<Rightarrow> string \<Rightarrow> nexusUploadOptions \<Rightarrow> nexusUploadOptions" where
  "assign Ref_Version v c = c\<lparr>Version := v\<rparr>"
| "assign Ref_Url v c = c\<lparr>Url := v\<rparr>"
| "assign Ref_Repository v c = c\<lparr>Repository := v\<rparr>"
| "assign Ref_GroupID v c = c\<lparr>GroupID := v\<rparr>"
| "assign Ref_ArtifactID v c = c\<lparr>ArtifactID := v\<rparr>"
| "assign Ref_GlobalSettingsFile v c = c\<lparr>nexusUploadOptions.GlobalSettingsFile := v\<rparr>"
| "assign Ref_M2Path v c = c\<lparr>nexusUploadOptions.M2Path := v\<rparr>"
| "assign Ref_AdditionalClassifiers v c = c\<lparr>AdditionalClassifiers := v\<rparr>"
| "assign Ref_User v c = c\<lparr>User := v\<rparr>"
| "assign Ref_Password v c = c\<lparr>Password := v\<rparr>"

text \<open>
  The part of a cobra command that flag registration touches: its flags in the order of
  registration, each with its name, usage text, bound variable, default value and
  annotations.
\<close>

record Flag =
  Name :: string
  Usage :: string
  Value :: stepConfigRef
  DefValue :: string
  Annotations :: "(string \<times> string list) list"

record Command =
  Use :: string
  Short :: string
  Long :: string
  flags :: "Flag list"

definition BashCompOneRequiredFlag :: string where
  "BashCompOneRequiredFlag = ''cobra_annotation_bash_completion_one_required_flag''"

text \<open>
  \<open>StringVar\<close> stores the default in the bound variable and adds the flag; defining a
  name twice panics (\<open>None\<close>).
\<close>

definition StringVar ::
  "stepConfigRef \<Rightarrow> string \<Rightarrow> string \<Rightarrow> string \<Rightarrow> Command \<times> nexusUploadOptions
     \<Rightarrow> (Command \<times> nexusUploadOptions) option" where
  "StringVar p name val usage cs =
     (case cs of
        (cmd, stepConfig) \<Rightarrow>
          (if name \<in> set (map Name (flags cmd)) then None
           else Some
             (cmd\<lparr>flags := flags cmd @
                [\<lparr>Name = name, Usage = usage, Value = p, DefValue = val, Annotations = []\<rparr>]\<rparr>,
              assign p val stepConfig)))"

text \<open>
  \<open>MarkFlagRequired\<close> annotates the named flag, and returns an error when there is no
  such flag.
\<close>

definition MarkFlagRequired :: "string \<Rightarrow> Command \<Rightarrow> Command \<times> error option" where
  "MarkFlagRequired name cmd =
     (if name \<in> set (map Name (flags cmd)) then
        (cmd\<lparr>flags :=
           map (\<lambda>f. if Name f = name
                     then f\<lparr>Annotations := (BashCompOneRequiredFlag, [''true'']) # Annotations f\<rparr>
                     else f) (flags cmd)\<rparr>, None)
      else (cmd, Some (External ''no such flag'')))"

definition isRequired :: "Flag \<Rightarrow> bool" where
  "isRequired f =
     (case map_of (Annotations f) BashCompOneRequiredFlag of
        Some (v # _) \<Rightarrow> v = ''true''
      | _ \<Rightarrow> False)"

text \<open>\<open>getenv\<close> is \<open>os.Getenv\<close>, the environment of the process.\<close>

definition addNexusUploadFlags ::
  "(string \<Rightarrow> string) \<Rightarrow> Command \<Rightarrow> nexusUploadOptions
     \<Rightarrow> (Command \<times> nexusUploadOptions) option" where
  "addNexusUploadFlags getenv cmd stepConfig = do {
     cs \<leftarrow> StringVar Ref_Version ''version'' ''nexus3''
       ''The Nexus Repository Manager version. Currently supported are 'nexus2' and 'nexus3'.''
       (cmd, stepConfig);
     cs \<leftarrow> StringVar Ref_Url ''url'' (getenv ''PIPER_url'')
       ''URL of the nexus. The scheme part of the URL will not be considered, because only http is supported.''
       cs;
     cs \<leftarrow> StringVar Ref_Repository ''repository'' (getenv ''PIPER_repository'')
       ''Name of the nexus repository.'' cs;
     cs \<leftarrow> StringVar Ref_GroupID ''groupId'' (getenv ''PIPER_groupId'')
       ''Group ID of the artifacts. Only used in MTA projects, ignored for Maven.'' cs;
     cs \<leftarrow> StringVar Ref_ArtifactID ''artifactId'' (getenv ''PIPER_artifactId'')
       ''The artifact ID used for both the .mtar and mta.yaml files deployed for MTA projects, ignored for Maven.''
       cs;
     cs \<leftarrow> StringVar Ref_GlobalSettingsFile ''globalSettingsFile''
       (getenv ''PIPER_globalSettingsFile'')
       ''Path to the mvn settings file that should be used as global settings file.'' cs;
     cs \<leftarrow> StringVar Ref_M2Path ''m2Path'' (getenv ''PIPER_m2Path'')
       ''The path to the local .m2 directory, only used for Maven projects.'' cs;
     cs \<leftarrow> StringVar Ref_AdditionalClassifiers ''additionalClassifiers''
       (getenv ''PIPER_additionalClassifiers'')
       ''List of additional classifiers that should be deployed to nexus. Each item is a map of a type and a classifier name.''
       cs;
     cs \<leftarrow> StringVar Ref_User ''user'' (getenv ''PIPER_user'') ''User'' cs;
     cs \<leftarrow> StringVar Ref_Password ''password'' (getenv ''PIPER_password'') ''Password'' cs;
     (let cmd = fst (MarkFlagRequired ''url'' (fst cs));
          cmd = fst (MarkFlagRequired ''repository'' cmd)
      in Some (cmd, snd cs))
   }"

definition NexusUploadCommand :: "(string \<Rightarrow> string) \<Rightarrow> (Command \<times> nexusUploadOptions) option" where
  "NexusUploadCommand getenv =
     (let stepConfig =
            \<lparr>Version = '''', Url = '''', Repository = '''', GroupID = '''', ArtifactID = '''',
             GlobalSettingsFile = '''', M2Path = '''', AdditionalClassifiers = '''',
             User = '''', Password = ''''\<rparr>;
          createNexusUploadCmd =
            \<lparr>Use = ''nexusUpload'',
             Short = ''Upload artifacts to Nexus'',
             Long = ''Upload build artifacts to a Nexus Repository Manager'',
             flags = []\<rparr>
      in addNexusUploadFlags getenv createNexusUploadCmd stepConfig)"

section \<open>The vocabulary of the claims\<close>

text \<open>
  The definitions of this section are not translations of source functions. They name what
  the claims speak of, in the claims' words: when an option is a URL and the file name it
  stands for, the order of the parameters, the options that \<open>Evaluate\<close> and \<open>InstallFile\<close>
  hand to \<open>Execute\<close>, the bytes written to standard output, and the Maven runs that
  evaluate an expression or install a file.
\<close>

definition isURL :: "string \<Rightarrow> bool" where
  "isURL settingsFileOption =
     (strings_HasPrefix settingsFileOption ''http:'' \<or> strings_HasPrefix settingsFileOption ''https:'')"

definition settingsFileName :: "string \<Rightarrow> string \<Rightarrow> string" where
  "settingsFileName settingsFileOption settingsFile =
     (if isURL settingsFileOption then settingsFile else settingsFileOption)"

text \<open>
  The download of a settings file: it is needed when the option is a URL and the local
  file does not exist; it changes the world and adds a download to the trace; its error,
  if any, is wrapped.
\<close>

definition downloadNeeded :: "string \<Rightarrow> string \<Rightarrow> 'w mavenUtils \<Rightarrow> 'w state \<Rightarrow> bool" where
  "downloadNeeded settingsFileOption settingsFile utils s =
     (isURL settingsFileOption \<and> \<not> fst (FileExists utils settingsFile (cwd s) (world s)))"

definition afterDownload :: "string \<Rightarrow> string \<Rightarrow> 'w mavenUtils \<Rightarrow> 'w state \<Rightarrow> 'w state" where
  "afterDownload settingsFileOption settingsFile utils s =
     (if downloadNeeded settingsFileOption settingsFile utils s
      then s\<lparr>world := snd (DownloadFile utils settingsFileOption settingsFile (cwd s) (world s)),
             trace := trace s @ [Download settingsFileOption settingsFile]\<rparr>
      else s)"

definition downloadError :: "string \<Rightarrow> string \<Rightarrow> 'w mavenUtils \<Rightarrow> 'w state \<Rightarrow> error option" where
  "downloadError settingsFileOption settingsFile utils s =
     (if downloadNeeded settingsFileOption settingsFile utils s
      then (case fst (DownloadFile utils settingsFileOption settingsFile (cwd s) (world s)) of
              None \<Rightarrow> None
            | Some e \<Rightarrow> Some (DownloadFailed settingsFileOption settingsFile e))
      else None)"

definition parameterOrder :: "ExecuteOptions \<Rightarrow> string list" where
  "parameterOrder options =
     (if ExecuteOptions.GlobalSettingsFile options \<noteq> []
      then [''--global-settings'',
            settingsFileName (ExecuteOptions.GlobalSettingsFile options)
              ''.pipeline/mavenGlobalSettings.xml'']
      else [])
     @ (if ExecuteOptions.ProjectSettingsFile options \<noteq> []
        then [''--settings'',
              settingsFileName (ExecuteOptions.ProjectSettingsFile options)
                ''.pipeline/mavenProjectSettings.xml'']
        else [])
     @ (if ExecuteOptions.M2Path options \<noteq> []
        then [''-Dmaven.repo.local='' @ ExecuteOptions.M2Path options] else [])
     @ (if ExecuteOptions.PomPath options \<noteq> []
        then [''--file'', ExecuteOptions.PomPath options] else [])
     @ Flags options
     @ Defines options
     @ (if LogSuccessfulMavenTransfers options then []
        else [''-Dorg.slf4j.simpleLogger.log.org.apache.maven.cli.transfer.Slf4jMavenTransferListener=warn''])
     @ [''--batch-mode'']
     @ Goals options"

definition evaluateExecuteOptions :: "EvaluateOptions \<Rightarrow> string \<Rightarrow> ExecuteOptions" where
  "evaluateExecuteOptions options expression =
     \<lparr>ExecuteOptions.PomPath = EvaluateOptions.PomPath options,
      ProjectSettingsFile = EvaluateOptions.ProjectSettingsFile options,
      GlobalSettingsFile = EvaluateOptions.GlobalSettingsFile options,
      M2Path = EvaluateOptions.M2Path options,
      Goals = [''org.apache.maven.plugins:maven-help-plugin:3.1.0:evaluate''],
      Defines = [''-Dexpression='' @ expression, ''-DforceStdout'', ''-q''],
      Flags = [],
      LogSuccessfulMavenTransfers = False,
      ReturnStdout = True\<rparr>"

definition installDefines :: "string \<Rightarrow> string \<Rightarrow> string list" where
  "installDefines fl pomFile =
     (if fl = [] then [''-Dfile='' @ pomFile]
      else [''-Dfile='' @ fl]
        @ (if strings_Contains fl ''.jar'' then [''-Dpackaging=jar''] else [])
        @ (if strings_Contains fl ''-classes'' then [''-Dclassifier=classes''] else []))
     @ [''-DpomFile='' @ pomFile]"

definition installExecuteOptions :: "string \<Rightarrow> string \<Rightarrow> string \<Rightarrow> ExecuteOptions" where
  "installExecuteOptions fl pomFile m2Path =
     \<lparr>ExecuteOptions.PomPath = pomFile,
      ProjectSettingsFile = [],
      GlobalSettingsFile = [],
      M2Path = m2Path,
      Goals = [''install:install-file''],
      Defines = installDefines fl pomFile,
      Flags = [],
      LogSuccessfulMavenTransfers = False,
      ReturnStdout = False\<rparr>"

definition stdoutBytes :: "(stream \<times> string) list \<Rightarrow> string" where
  "stdoutBytes out = concat (map snd (filter (\<lambda>chunk. fst chunk = ToStdout) out))"

definition mvnEvaluate :: "EvaluateOptions \<Rightarrow> string \<Rightarrow> string \<Rightarrow> event" where
  "mvnEvaluate options dir expression =
     Run dir ''mvn'' (parameterOrder (evaluateExecuteOptions options expression))"

definition mvnInstall :: "string \<Rightarrow> string \<Rightarrow> string \<Rightarrow> event" where
  "mvnInstall m2Path dir fl =
     Run dir ''mvn'' (parameterOrder (installExecuteOptions fl ''pom.xml'' m2Path))"

text \<open>
  The installs of a module whose packaging is not \<open>pom\<close>, given the final name and which
  files exist.
\<close>

definition artifactInstalls :: "string \<Rightarrow> string \<Rightarrow> (string \<Rightarrow> bool) \<Rightarrow> string \<Rightarrow> event list" where
  "artifactInstalls m2Path dir fileExists finalName =
     (if finalName = [] then [mvnInstall m2Path dir []]
      else (if fileExists (jarFile finalName) then [mvnInstall m2Path dir (jarFile finalName)] else [])
         @ (if fileExists (warFile finalName) then [mvnInstall m2Path dir (warFile finalName)] else [])
         @ (if fileExists (classesJarFile finalName)
            then [mvnInstall m2Path dir (classesJarFile finalName)] else []))"

text \<open>
  The actions of one pass of the loop, for the pom file it is given and the state it starts
  in: the change to the directory of the pom file, the evaluation of the packaging, the
  installs that the packaging and the final name call for, the change back. The actions of
  the whole loop are those of its passes, each pass starting in the state the pass before
  it left. \<open>flattenRun\<close> is the run of \<open>flatten:flatten\<close> that comes before the loop.
\<close>

definition moduleActions ::
  "'w deps \<Rightarrow> 'w mavenExecRunner \<Rightarrow> EvaluateOptions \<Rightarrow> 'w mavenUtils \<Rightarrow> string \<Rightarrow> string
     \<Rightarrow> 'w state \<Rightarrow> event list" where
  "moduleActions d command options utils old pomFile s =
     (let dir = snd (chdir utils (path_Dir pomFile) (cwd s) (world s));
          packaging = Evaluate d options ''project.packaging'' command
                        (snd (callChdir utils (path_Dir pomFile) s));
          finalName = Evaluate d options ''project.build.finalName'' command (snd packaging)
      in [Chdir (path_Dir pomFile), mvnEvaluate options dir ''project.packaging'']
         @ (if fst (fst packaging) = ''pom''
            then [mvnInstall (EvaluateOptions.M2Path options) dir []]
            else mvnEvaluate options dir ''project.build.finalName''
              # artifactInstalls (EvaluateOptions.M2Path options) dir
                  (\<lambda>f. fst (FileExists utils f dir (world (snd finalName))))
                  (fst (fst finalName)))
         @ [Chdir old])"

fun loopActions ::
  "'w deps \<Rightarrow> 'w mavenExecRunner \<Rightarrow> EvaluateOptions \<Rightarrow> 'w mavenUtils \<Rightarrow> string \<Rightarrow> string list
     \<Rightarrow> 'w state \<Rightarrow> event list" where
  "loopActions d command options utils old [] s = []"
| "loopActions d command options utils old (pomFile # pomFiles) s =
     moduleActions d command options utils old pomFile s
     @ loopActions d command options utils old pomFiles
         (snd (installModule d command options utils old pomFile s))"

definition flattenRun :: "string \<Rightarrow> event" where
  "flattenRun dir =
     Run dir ''mvn''
       [''--file'', ''pom.xml'', ''-Dflatten.mode=resolveCiFriendliesOnly'',
        ''-Dorg.slf4j.simpleLogger.log.org.apache.maven.cli.transfer.Slf4jMavenTransferListener=warn'',
        ''--batch-mode'', ''flatten:flatten'']"

text \<open>
  The installs that claim C2, read literally, expects of a module, and the files that a
  trace shows as installed (the \<open>-Dfile=\<close> argument of each \<open>install:install-file\<close> run).
\<close>

definition claimedInstalls ::
  "string \<Rightarrow> 'w mavenUtils \<Rightarrow> string \<Rightarrow> 'w \<Rightarrow> string \<Rightarrow> string list" where
  "claimedInstalls packaging utils dir w finalName =
     (if packaging = ''pom'' then [''pom.xml'']
      else filter (\<lambda>f. fst (FileExists utils f dir w))
             [jarFile finalName, warFile finalName, classesJarFile finalName])"

fun installedFile :: "event \<Rightarrow> string option" where
  "installedFile (Run c e p) =
     (if p \<noteq> [] \<and> last p = ''install:install-file''
      then (case filter (prefix ''-Dfile='') p of [] \<Rightarrow> None | a # _ \<Rightarrow> Some (drop 7 a))
      else None)"
| "installedFile _ = None"

definition installedFiles :: "event list \<Rightarrow> string list" where
  "installedFiles tr = List.map_filter installedFile tr"

section \<open>Projections of the trace and intermediate results\<close>

text \<open>
  Kinds of events, for projecting a trace; an action is every event but a download.
\<close>

fun isRun :: "event \<Rightarrow> bool" where
  "isRun (Run c e p) = True"
| "isRun _ = False"

fun isChdir :: "event \<Rightarrow> bool" where
  "isChdir (Chdir dir) = True"
| "isChdir _ = False"

fun isDownload :: "event \<Rightarrow> bool" where
  "isDownload (Download u f) = True"
| "isDownload _ = False"

fun isAction :: "event \<Rightarrow> bool" where
  "isAction (Download u f) = False"
| "isAction _ = True"

text \<open>
  \<open>downloadsOnly s s'\<close>: from \<open>s\<close> to \<open>s'\<close> only the world changed and the trace gained
  downloads. \<open>prepared\<close> is the state in which \<open>Execute\<close> builds the parameters (the runner's
  writers are set), \<open>builtParameters\<close> the result of building them there, and
  \<open>runnerResult\<close> what the runner answers to the command line built.
\<close>

definition downloadsOnly :: "'w state \<Rightarrow> 'w state \<Rightarrow> bool" where
  "downloadsOnly s s' =
     (\<exists>w' dl. s' = s\<lparr>world := w', trace := trace s @ dl\<rparr> \<and> list_all isDownload dl)"

definition prepared :: "ExecuteOptions \<Rightarrow> 'w state \<Rightarrow> 'w state" where
  "prepared options s =
     Stderr LogWriter
       (Stdout (snd (fst (evaluateStdOut options s))) (snd (evaluateStdOut options s)))"

definition builtParameters ::
  "'w deps \<Rightarrow> ExecuteOptions \<Rightarrow> 'w state \<Rightarrow> (string list \<times> error option) \<times> 'w state" where
  "builtParameters d options s = getParametersFromOptions options (newUtils d) (prepared options s)"

definition runnerResult ::
  "'w deps \<Rightarrow> ExecuteOptions \<Rightarrow> 'w mavenExecRunner \<Rightarrow> 'w state
     \<Rightarrow> (stream \<times> string) list \<times> error option \<times> 'w" where
  "runnerResult d options command s =
     command ''mvn'' (fst (fst (builtParameters d options s))) (cwd s)
       (world (snd (builtParameters d options s)))"

text \<open>
  Parts of the source functions, named for the proofs: the parameters after the settings
  files, one settings file, an install that depends on a file's existence, and the branch
  on the packaging.
\<close>

definition restParameters :: "ExecuteOptions \<Rightarrow> string list" where
  "restParameters options =
     (if ExecuteOptions.M2Path options \<noteq> ''''
        then [''-Dmaven.repo.local='' @ ExecuteOptions.M2Path options] else [])
     @ (if ExecuteOptions.PomPath options \<noteq> ''''
        then [''--file'', ExecuteOptions.PomPath options] else [])
     @ Flags options
     @ Defines options
     @ (if LogSuccessfulMavenTransfers options then []
        else [''-Dorg.slf4j.simpleLogger.log.org.apache.maven.cli.transfer.Slf4jMavenTransferListener=warn''])
     @ [''--batch-mode'']
     @ Goals options"

definition settingsStage ::
  "string \<Rightarrow> string \<Rightarrow> string \<Rightarrow> 'w mavenUtils \<Rightarrow> 'w state \<Rightarrow> (error + string list) \<times> 'w state" where
  "settingsStage flag opt file utils s =
     (if opt = [] then (Inr [], s)
      else (case downloadSettingsIfURL opt file utils s of
              ((n, None), s') \<Rightarrow> (Inr [flag, n], s')
            | ((n, Some e), s') \<Rightarrow> (Inl e, s')))"

definition optionalInstall ::
  "'w deps \<Rightarrow> bool \<Rightarrow> string \<Rightarrow> string \<Rightarrow> 'w mavenExecRunner \<Rightarrow> 'w state \<Rightarrow> error option \<times> 'w state" where
  "optionalInstall d b fl m2Path command s =
     (if b then InstallFile d fl ''pom.xml'' m2Path command s else (None, s))"

definition packagingStep ::
  "'w deps \<Rightarrow> 'w mavenExecRunner \<Rightarrow> 'w mavenUtils \<Rightarrow> EvaluateOptions \<Rightarrow> string \<Rightarrow> 'w state
     \<Rightarrow> error option \<times> 'w state" where
  "packagingStep d command utils options packaging s =
     (if packaging = ''pom''
      then InstallFile d [] ''pom.xml'' (EvaluateOptions.M2Path options) command s
      else installJarWarArtifacts d command utils options s)"

section \<open>A concrete environment\<close>

text \<open>
  A small world for evaluating the model: the world is the list of the files that exist, a
  download creates its target file (or fails, offline), the glob finds two pom files (or
  one), and the runners print a fixed output, the packaging and final name of a module, or
  an empty final name.
\<close>

definition demoDeps :: "string list deps" where
  "demoDeps =
     \<lparr>Files_FileExists = (\<lambda>p c w. (p \<in> set w, None)),
      Client_DownloadFile = (\<lambda>url f c w. (None, f # w)),
      doublestar_Glob = (\<lambda>pattern c w. ([''pom.xml'', ''app/pom.xml''], None)),
      os_Getwd_error = (\<lambda>c w. None),
      os_Chdir_error = (\<lambda>dir c w. None)\<rparr>"

definition offlineDeps :: "string list deps" where
  "offlineDeps = demoDeps\<lparr>Client_DownloadFile := (\<lambda>url f c w. (Some (External ''offline''), w))\<rparr>"

definition singleModuleDeps :: "string list deps" where
  "singleModuleDeps = demoDeps\<lparr>doublestar_Glob := (\<lambda>pattern c w. ([''pom.xml''], None))\<rparr>"

definition demoState :: "string list state" where
  "demoState =
     \<lparr>cwd = ''/work'', world = [''target/app-1.0.jar''], stdoutWriter = LogWriter,
      stderrWriter = LogWriter, buffers = [], logged = [], trace = []\<rparr>"

definition emptyNameState :: "string list state" where
  "emptyNameState = demoState\<lparr>world := [''target/.jar'']\<rparr>"

definition demoOptions :: ExecuteOptions where
  "demoOptions =
     \<lparr>ExecuteOptions.PomPath = ''pom.xml'',
      ProjectSettingsFile = ''settings.xml'',
      GlobalSettingsFile = ''https://example.org/global.xml'',
      M2Path = ''/m2'',
      Goals = [''clean'', ''install''],
      Defines = [''-DskipTests''],
      Flags = [''-X''],
      LogSuccessfulMavenTransfers = False,
      ReturnStdout = True\<rparr>"

definition urlOptions :: ExecuteOptions where
  "urlOptions = demoOptions\<lparr>ExecuteOptions.ProjectSettingsFile := ''http://repo/settings.xml''\<rparr>"

definition demoEvaluateOptions :: EvaluateOptions where
  "demoEvaluateOptions =
     \<lparr>EvaluateOptions.PomPath = ''pom.xml'',
      ProjectSettingsFile = [],
      GlobalSettingsFile = [],
      M2Path = ''/m2''\<rparr>"

definition demoRunner :: "string list mavenExecRunner" where
  "demoRunner e p c w =
     ([(ToStdout, ''BUILD''), (ToStderr, ''warning''), (ToStdout, '' SUCCESS'')], None, w)"

definition nullRunner :: "string list mavenExecRunner" where
  "nullRunner e p c w = ([(ToStdout, ''null object or invalid expression'')], None, w)"

definition moduleRunner :: "string list mavenExecRunner" where
  "moduleRunner e p c w =
     (if last p = ''org.apache.maven.plugins:maven-help-plugin:3.1.0:evaluate'' then
        (if ''-Dexpression=project.packaging'' \<in> set p
         then [(ToStdout, if c = ''/work/app'' then ''jar'' else ''pom'')]
         else [(ToStdout, ''app-1.0'')])
      else [(ToStderr, ''BUILD SUCCESS'')],
      None, w)"

definition emptyNameRunner :: "string list mavenExecRunner" where
  "emptyNameRunner e p c w =
     (if ''-Dexpression=project.packaging'' \<in> set p then [(ToStdout, ''jar'')] else [], None, w)"

section \<open>Lemmas: building the parameters\<close>

text \<open>
  The parameters are built in stages; each stage changes only the world and adds only
  downloads to the trace.
\<close>

lemma getParametersFromOptions_stages:
  "getParametersFromOptions options utils s =
     (case settingsStage ''--global-settings'' (ExecuteOptions.GlobalSettingsFile options)
             ''.pipeline/mavenGlobalSettings.xml'' utils s of
        (Inl e, s1) \<Rightarrow> (([], Some e), s1)
      | (Inr g, s1) \<Rightarrow>
          (case settingsStage ''--settings'' (ExecuteOptions.ProjectSettingsFile options)
                  ''.pipeline/mavenProjectSettings.xml'' utils s1 of
             (Inl e, s2) \<Rightarrow> (([], Some e), s2)
           | (Inr p, s2) \<Rightarrow> ((g @ p @ restParameters options, None), s2)))"
  by (cases "ExecuteOptions.GlobalSettingsFile options = []";
      cases "ExecuteOptions.ProjectSettingsFile options = []")
     (simp_all add: getParametersFromOptions_def settingsStage_def restParameters_def
        split: prod.split option.split)

lemma downloadSettingsIfURL_cases:
  obtains (ok) s' where "downloadSettingsIfURL opt fl utils s = ((settingsFileName opt fl, None), s')"
  | (failed) e s' where "downloadSettingsIfURL opt fl utils s = (([], Some e), s')"
proof (cases "isURL opt")
  case False
  then have "downloadSettingsIfURL opt fl utils s = ((settingsFileName opt fl, None), s)"
    by (simp add: downloadSettingsIfURL_def settingsFileName_def isURL_def)
  then show ?thesis by (rule ok)
next
  case True
  obtain eo s' where r: "downloadSettingsFromURL opt fl utils s = (eo, s')"
    by (cases "downloadSettingsFromURL opt fl utils s")
  show ?thesis
  proof (cases eo)
    case None
    with r True have "downloadSettingsIfURL opt fl utils s = ((settingsFileName opt fl, None), s')"
      by (simp add: downloadSettingsIfURL_def settingsFileName_def isURL_def)
    then show ?thesis by (rule ok)
  next
    case (Some e)
    with r True have "downloadSettingsIfURL opt fl utils s = (([], Some e), s')"
      by (simp add: downloadSettingsIfURL_def isURL_def)
    then show ?thesis by (rule failed)
  qed
qed

lemma downloadsOnly_refl: "downloadsOnly s s"
proof -
  have "s = s\<lparr>world := world s, trace := trace s @ []\<rparr>" by simp
  moreover have "list_all isDownload []" by simp
  ultimately show ?thesis unfolding downloadsOnly_def by blast
qed

lemma downloadsOnly_trans:
  assumes "downloadsOnly s s1" and "downloadsOnly s1 s2"
  shows "downloadsOnly s s2"
proof -
  from assms(1) obtain w1 d1 where
    a: "s1 = s\<lparr>world := w1, trace := trace s @ d1\<rparr>" "list_all isDownload d1"
    unfolding downloadsOnly_def by blast
  from assms(2) obtain w2 d2 where
    b: "s2 = s1\<lparr>world := w2, trace := trace s1 @ d2\<rparr>" "list_all isDownload d2"
    unfolding downloadsOnly_def by blast
  have "s2 = s\<lparr>world := w2, trace := trace s @ (d1 @ d2)\<rparr>" using a(1) b(1) by simp
  moreover have "list_all isDownload (d1 @ d2)" using a(2) b(2) by simp
  ultimately show ?thesis unfolding downloadsOnly_def by blast
qed

lemma downloadSettingsFromURL_frame:
  "downloadsOnly s (snd (downloadSettingsFromURL url filename utils s))"
proof (cases "fst (FileExists utils filename (cwd s) (world s))")
  case True
  then show ?thesis by (simp add: downloadSettingsFromURL_def downloadsOnly_refl)
next
  case False
  obtain err w' where r: "DownloadFile utils url filename (cwd s) (world s) = (err, w')"
    by (cases "DownloadFile utils url filename (cwd s) (world s)")
  have "snd (downloadSettingsFromURL url filename utils s)
          = s\<lparr>world := w', trace := trace s @ [Download url filename]\<rparr>"
    using False r by (simp add: downloadSettingsFromURL_def Let_def split: option.split)
  moreover have "list_all isDownload [Download url filename]" by simp
  ultimately show ?thesis unfolding downloadsOnly_def by blast
qed

lemma downloadSettingsIfURL_frame:
  "downloadsOnly s (snd (downloadSettingsIfURL opt fl utils s))"
proof (cases "isURL opt")
  case False
  then show ?thesis by (simp add: downloadSettingsIfURL_def isURL_def downloadsOnly_refl)
next
  case True
  have "snd (downloadSettingsIfURL opt fl utils s) = snd (downloadSettingsFromURL opt fl utils s)"
    using True by (simp add: downloadSettingsIfURL_def isURL_def split: prod.split option.split)
  then show ?thesis by (simp add: downloadSettingsFromURL_frame)
qed

lemma settingsStage_frame: "downloadsOnly s (snd (settingsStage flag opt fl utils s))"
proof (cases "opt = []")
  case True
  then show ?thesis by (simp add: settingsStage_def downloadsOnly_refl)
next
  case False
  have "snd (settingsStage flag opt fl utils s) = snd (downloadSettingsIfURL opt fl utils s)"
    using False by (simp add: settingsStage_def split: prod.split option.split)
  then show ?thesis by (simp add: downloadSettingsIfURL_frame)
qed

lemma getParametersFromOptions_frame:
  "downloadsOnly s (snd (getParametersFromOptions options utils s))"
proof -
  let ?g = "settingsStage ''--global-settings'' (ExecuteOptions.GlobalSettingsFile options)
             ''.pipeline/mavenGlobalSettings.xml'' utils s"
  let ?p = "settingsStage ''--settings'' (ExecuteOptions.ProjectSettingsFile options)
                  ''.pipeline/mavenProjectSettings.xml'' utils (snd ?g)"
  have g: "downloadsOnly s (snd ?g)" by (rule settingsStage_frame)
  have p: "downloadsOnly (snd ?g) (snd ?p)" by (rule settingsStage_frame)
  have "snd (getParametersFromOptions options utils s) = snd ?g
      \<or> snd (getParametersFromOptions options utils s) = snd ?p"
    by (simp add: getParametersFromOptions_stages case_prod_beta split: sum.split)
  then show ?thesis using g downloadsOnly_trans[OF g p] by auto
qed

lemma settingsStage_result:
  "fst (settingsStage flag opt fl utils s) = Inr ps \<Longrightarrow>
   ps = (if opt = [] then [] else [flag, settingsFileName opt fl])"
  by (cases rule: downloadSettingsIfURL_cases[where opt=opt and fl=fl and utils=utils and s=s])
     (auto simp add: settingsStage_def split: if_splits)

lemma getParametersFromOptions_success:
  assumes "snd (fst (getParametersFromOptions options utils s)) = None"
  shows "fst (fst (getParametersFromOptions options utils s)) = parameterOrder options"
proof -
  let ?g = "settingsStage ''--global-settings'' (ExecuteOptions.GlobalSettingsFile options)
             ''.pipeline/mavenGlobalSettings.xml'' utils s"
  let ?p = "settingsStage ''--settings'' (ExecuteOptions.ProjectSettingsFile options)
                  ''.pipeline/mavenProjectSettings.xml'' utils (snd ?g)"
  from assms obtain g where g: "fst ?g = Inr g"
    by (cases "fst ?g") (simp_all add: getParametersFromOptions_stages case_prod_beta)
  from assms g obtain p where p: "fst ?p = Inr p"
    by (cases "fst ?p") (simp_all add: getParametersFromOptions_stages case_prod_beta)
  have "fst (fst (getParametersFromOptions options utils s)) = g @ p @ restParameters options"
    using g p by (simp add: getParametersFromOptions_stages case_prod_beta)
  then show ?thesis
    using settingsStage_result[OF g] settingsStage_result[OF p]
    by (simp add: parameterOrder_def restParameters_def)
qed

lemma no_settings_parameters:
  "ExecuteOptions.GlobalSettingsFile options = [] \<Longrightarrow>
   ExecuteOptions.ProjectSettingsFile options = [] \<Longrightarrow>
   getParametersFromOptions options utils s = ((restParameters options, None), s)"
  by (simp add: getParametersFromOptions_stages settingsStage_def)

lemma downloadSettingsIfURL_fetch:
  "downloadSettingsIfURL opt fl utils s =
     ((if downloadError opt fl utils s = None then settingsFileName opt fl else [],
       downloadError opt fl utils s),
      afterDownload opt fl utils s)"
  by (simp add: downloadSettingsIfURL_def downloadSettingsFromURL_def downloadError_def
      afterDownload_def downloadNeeded_def settingsFileName_def isURL_def Let_def
      case_prod_beta split: option.split)

lemma not_url_empty: "\<not> isURL []"
  by (simp add: isURL_def strings_HasPrefix_def)

lemma settingsStage_fetch:
  "settingsStage flag opt fl utils s =
     (case downloadError opt fl utils s of
        Some e \<Rightarrow> Inl e
      | None \<Rightarrow> Inr (if opt = [] then [] else [flag, settingsFileName opt fl]),
      afterDownload opt fl utils s)"
  by (simp add: settingsStage_def downloadSettingsIfURL_fetch downloadError_def afterDownload_def
      downloadNeeded_def not_url_empty split: option.split)

lemma getParametersFromOptions_fetch:
  "getParametersFromOptions options utils s =
     (case downloadError (ExecuteOptions.GlobalSettingsFile options)
             ''.pipeline/mavenGlobalSettings.xml'' utils s of
        Some e \<Rightarrow>
          (([], Some e),
           afterDownload (ExecuteOptions.GlobalSettingsFile options)
             ''.pipeline/mavenGlobalSettings.xml'' utils s)
      | None \<Rightarrow>
          (case downloadError (ExecuteOptions.ProjectSettingsFile options)
                  ''.pipeline/mavenProjectSettings.xml'' utils
                  (afterDownload (ExecuteOptions.GlobalSettingsFile options)
                     ''.pipeline/mavenGlobalSettings.xml'' utils s) of
             Some e \<Rightarrow>
               (([], Some e),
                afterDownload (ExecuteOptions.ProjectSettingsFile options)
                  ''.pipeline/mavenProjectSettings.xml'' utils
                  (afterDownload (ExecuteOptions.GlobalSettingsFile options)
                     ''.pipeline/mavenGlobalSettings.xml'' utils s))
           | None \<Rightarrow>
               ((parameterOrder options, None),
                afterDownload (ExecuteOptions.ProjectSettingsFile options)
                  ''.pipeline/mavenProjectSettings.xml'' utils
                  (afterDownload (ExecuteOptions.GlobalSettingsFile options)
                     ''.pipeline/mavenGlobalSettings.xml'' utils s))))"
  by (simp add: getParametersFromOptions_stages settingsStage_fetch parameterOrder_def
      restParameters_def split: option.split)

section \<open>Lemmas: the writers and Execute\<close>

text \<open>
  What a run writes reaches the log, and the buffer when there is one; \<open>Execute\<close> keeps the
  working directory and adds at most one run to the trace.
\<close>

lemma downloads_no_run: "list_all isDownload dl \<Longrightarrow> filter isRun dl = []"
  by (induction dl) (auto elim: isDownload.elims)

lemma downloads_no_chdir: "list_all isDownload dl \<Longrightarrow> filter isChdir dl = []"
  by (induction dl) (auto elim: isDownload.elims)

lemma downloadsOnlyD:
  assumes "downloadsOnly s s'"
  shows "cwd s' = cwd s" and "buffers s' = buffers s" and "logged s' = logged s"
    and "stdoutWriter s' = stdoutWriter s" and "stderrWriter s' = stderrWriter s"
    and "filter isRun (trace s') = filter isRun (trace s)"
    and "filter isChdir (trace s') = filter isChdir (trace s)"
proof -
  from assms obtain w' dl where
    a: "s' = s\<lparr>world := w', trace := trace s @ dl\<rparr>" "list_all isDownload dl"
    unfolding downloadsOnly_def by blast
  show "cwd s' = cwd s" "buffers s' = buffers s" "logged s' = logged s"
    "stdoutWriter s' = stdoutWriter s" "stderrWriter s' = stderrWriter s"
    using a(1) by simp_all
  show "filter isRun (trace s') = filter isRun (trace s)"
    using a by (simp add: downloads_no_run)
  show "filter isChdir (trace s') = filter isChdir (trace s)"
    using a by (simp add: downloads_no_chdir)
qed

lemma writeTo_frame:
  "cwd (writeTo w b s) = cwd s \<and> world (writeTo w b s) = world s
   \<and> trace (writeTo w b s) = trace s
   \<and> stdoutWriter (writeTo w b s) = stdoutWriter s
   \<and> stderrWriter (writeTo w b s) = stderrWriter s"
  by (induction w arbitrary: s) simp_all

lemma fold_emit_frame:
  "cwd (fold emit out s) = cwd s \<and> world (fold emit out s) = world s
   \<and> trace (fold emit out s) = trace s
   \<and> stdoutWriter (fold emit out s) = stdoutWriter s
   \<and> stderrWriter (fold emit out s) = stderrWriter s"
  by (induction out arbitrary: s) (simp_all add: emit_def writeTo_frame)

lemma fold_emit_log:
  "stdoutWriter s = LogWriter \<Longrightarrow> stderrWriter s = LogWriter \<Longrightarrow>
   fold emit out s = s\<lparr>logged := logged s @ map snd out\<rparr>"
proof (induction out arbitrary: s)
  case Nil
  then show ?case by simp
next
  case (Cons chunk out)
  have e: "emit chunk s = s\<lparr>logged := logged s @ [snd chunk]\<rparr>"
    using Cons.prems by (cases "fst chunk") (simp_all add: emit_def)
  show ?case using Cons.prems by (simp add: e Cons.IH)
qed

lemma fold_emit_multi:
  "stdoutWriter s = MultiWriter LogWriter (BufferWriter i) \<Longrightarrow> stderrWriter s = LogWriter \<Longrightarrow>
   i < length (buffers s) \<Longrightarrow>
   fold emit out s =
     s\<lparr>logged := logged s @ map snd out,
       buffers := (buffers s)[i := buffers s ! i @ stdoutBytes out]\<rparr>"
proof (induction out arbitrary: s)
  case Nil
  then show ?case by (simp add: stdoutBytes_def)
next
  case (Cons chunk out)
  show ?case
  proof (cases "fst chunk")
    case ToStdout
    then have e: "emit chunk s =
        s\<lparr>logged := logged s @ [snd chunk],
          buffers := (buffers s)[i := buffers s ! i @ snd chunk]\<rparr>"
      using Cons.prems by (simp add: emit_def)
    show ?thesis using Cons.prems ToStdout
      by (simp add: e Cons.IH stdoutBytes_def)
  next
    case ToStderr
    then have e: "emit chunk s = s\<lparr>logged := logged s @ [snd chunk]\<rparr>"
      using Cons.prems by (simp add: emit_def)
    show ?thesis using Cons.prems ToStderr
      by (simp add: e Cons.IH stdoutBytes_def)
  qed
qed

lemma prepared_simps:
  "cwd (prepared options s) = cwd s"
  "world (prepared options s) = world s"
  "trace (prepared options s) = trace s"
  "logged (prepared options s) = logged s"
  "stderrWriter (prepared options s) = LogWriter"
  "stdoutWriter (prepared options s) =
     (if ReturnStdout options then MultiWriter LogWriter (BufferWriter (length (buffers s)))
      else LogWriter)"
  "buffers (prepared options s) =
     (if ReturnStdout options then buffers s @ [[]] else buffers s)"
  by (simp_all add: prepared_def evaluateStdOut_def Stdout_def Stderr_def Let_def)

lemma Execute_eq:
  "Execute d options command s =
     (case getParametersFromOptions options (newUtils d) (prepared options s) of
        ((ps, Some err), s4) \<Rightarrow> (([], Some (ParametersFailed err)), s4)
      | ((ps, None), s4) \<Rightarrow>
          (case RunExecutable command ''mvn'' ps s4 of
             (Some err, s5) \<Rightarrow> (([], Some (RunFailed (''mvn'' # ps) err)), s5)
           | (None, s5) \<Rightarrow>
               ((if ReturnStdout options then buffers s5 ! length (buffers s) else [], None), s5)))"
  by (simp add: Execute_def prepared_def evaluateStdOut_def Let_def mavenExecutable_def
      split: prod.split option.split)

lemma builtParameters_frame: "downloadsOnly (prepared options s) (snd (builtParameters d options s))"
  by (simp add: builtParameters_def getParametersFromOptions_frame)

lemma builtParameters_cwd: "cwd (snd (builtParameters d options s)) = cwd s"
  using downloadsOnlyD(1)[OF builtParameters_frame] by (simp add: prepared_simps)

lemma Execute_failed_parameters:
  assumes "snd (fst (builtParameters d options s)) = Some e"
  shows "Execute d options command s =
           (([], Some (ParametersFailed e)), snd (builtParameters d options s))"
  using assms by (simp add: Execute_eq builtParameters_def case_prod_beta)

lemma Execute_ran:
  assumes "snd (fst (builtParameters d options s)) = None"
    and "runnerResult d options command s = (out, err, w')"
  shows "Execute d options command s =
     (let ps = fst (fst (builtParameters d options s));
          s4 = snd (builtParameters d options s);
          s5 = fold emit out (s4\<lparr>world := w', trace := trace s4 @ [Run (cwd s) ''mvn'' ps]\<rparr>)
      in case err of
           Some e \<Rightarrow> (([], Some (RunFailed (''mvn'' # ps) e)), s5)
         | None \<Rightarrow> ((if ReturnStdout options then buffers s5 ! length (buffers s) else [], None), s5))"
  using assms builtParameters_cwd[of d options s]
  by (simp add: Execute_eq builtParameters_def runnerResult_def case_prod_beta RunExecutable_def
      Let_def split: option.split)

lemma Execute_cwd: "cwd (snd (Execute d options command s)) = cwd s"
proof (cases "snd (fst (builtParameters d options s))")
  case (Some e)
  then show ?thesis by (simp add: Execute_failed_parameters builtParameters_cwd)
next
  case None
  obtain out err w' where r: "runnerResult d options command s = (out, err, w')"
    by (cases "runnerResult d options command s")
  show ?thesis
    by (simp add: Execute_ran[OF None r] Let_def fold_emit_frame builtParameters_cwd
        split: option.split)
qed

lemma Execute_chdirs:
  "filter isChdir (trace (snd (Execute d options command s))) = filter isChdir (trace s)"
proof -
  have f: "filter isChdir (trace (snd (builtParameters d options s))) = filter isChdir (trace s)"
    using downloadsOnlyD(7)[OF builtParameters_frame] by (simp add: prepared_simps)
  show ?thesis
  proof (cases "snd (fst (builtParameters d options s))")
    case (Some e)
    then show ?thesis by (simp add: Execute_failed_parameters f)
  next
    case None
    obtain out err w' where r: "runnerResult d options command s = (out, err, w')"
      by (cases "runnerResult d options command s")
    show ?thesis
      by (simp add: Execute_ran[OF None r] Let_def fold_emit_frame f split: option.split)
  qed
qed

lemma Execute_runs:
  "filter isRun (trace (snd (Execute d options command s))) =
     filter isRun (trace s) @
       (if snd (fst (builtParameters d options s)) = None
        then [Run (cwd s) ''mvn'' (fst (fst (builtParameters d options s)))] else [])"
proof -
  have f: "filter isRun (trace (snd (builtParameters d options s))) = filter isRun (trace s)"
    using downloadsOnlyD(6)[OF builtParameters_frame] by (simp add: prepared_simps)
  show ?thesis
  proof (cases "snd (fst (builtParameters d options s))")
    case (Some e)
    then show ?thesis by (simp add: Execute_failed_parameters f)
  next
    case None
    obtain out err w' where r: "runnerResult d options command s = (out, err, w')"
      by (cases "runnerResult d options command s")
    show ?thesis using None
      by (simp add: Execute_ran[OF None r] Let_def fold_emit_frame f split: option.split)
  qed
qed

lemma Execute_error:
  "snd (fst (Execute d options command s)) =
     (case snd (fst (builtParameters d options s)) of
        Some e \<Rightarrow> Some (ParametersFailed e)
      | None \<Rightarrow>
          (case fst (snd (runnerResult d options command s)) of
             Some e \<Rightarrow> Some (RunFailed (''mvn'' # fst (fst (builtParameters d options s))) e)
           | None \<Rightarrow> None))"
proof (cases "snd (fst (builtParameters d options s))")
  case (Some e)
  then show ?thesis by (simp add: Execute_failed_parameters)
next
  case None
  obtain out err w' where r: "runnerResult d options command s = (out, err, w')"
    by (cases "runnerResult d options command s")
  show ?thesis using None r
    by (simp add: Execute_ran[OF None r] Let_def split: option.split)
qed

lemma Execute_error_value:
  "snd (fst (Execute d options command s)) \<noteq> None \<Longrightarrow> fst (fst (Execute d options command s)) = []"
proof (cases "snd (fst (builtParameters d options s))")
  case (Some e)
  then show ?thesis by (simp add: Execute_failed_parameters)
next
  case None
  assume a: "snd (fst (Execute d options command s)) \<noteq> None"
  obtain out err w' where r: "runnerResult d options command s = (out, err, w')"
    by (cases "runnerResult d options command s")
  show ?thesis using a
    by (cases err) (simp_all add: Execute_ran[OF None r] Let_def)
qed

lemma Execute_output:
  assumes "snd (fst (builtParameters d options s)) = None"
    and "runnerResult d options command s = (out, None, w')"
  shows "fst (Execute d options command s) =
           (if ReturnStdout options then stdoutBytes out else [], None)"
    and "logged (snd (Execute d options command s)) = logged s @ map snd out"
proof -
  let ?s4 = "snd (builtParameters d options s)"
  let ?s4' = "?s4\<lparr>world := w',
     trace := trace ?s4 @ [Run (cwd s) ''mvn'' (fst (fst (builtParameters d options s)))]\<rparr>"
  have b: "buffers ?s4 = buffers (prepared options s)"
    and l: "logged ?s4 = logged (prepared options s)"
    and o: "stdoutWriter ?s4 = stdoutWriter (prepared options s)"
    and e: "stderrWriter ?s4 = stderrWriter (prepared options s)"
    using downloadsOnlyD[OF builtParameters_frame[of options s d]] by simp_all
  show "fst (Execute d options command s) =
           (if ReturnStdout options then stdoutBytes out else [], None)"
  proof (cases "ReturnStdout options")
    case True
    have "fold emit out ?s4' = ?s4'\<lparr>logged := logged ?s4' @ map snd out,
       buffers := (buffers ?s4')[length (buffers s) := buffers ?s4' ! length (buffers s) @ stdoutBytes out]\<rparr>"
      by (rule fold_emit_multi) (simp_all add: b o e prepared_simps True)
    then show ?thesis using True
      by (simp add: Execute_ran[OF assms] Let_def b prepared_simps)
  next
    case False
    then show ?thesis by (simp add: Execute_ran[OF assms] Let_def)
  qed
  show "logged (snd (Execute d options command s)) = logged s @ map snd out"
  proof (cases "ReturnStdout options")
    case True
    have "fold emit out ?s4' = ?s4'\<lparr>logged := logged ?s4' @ map snd out,
       buffers := (buffers ?s4')[length (buffers s) := buffers ?s4' ! length (buffers s) @ stdoutBytes out]\<rparr>"
      by (rule fold_emit_multi) (simp_all add: b o e prepared_simps True)
    then show ?thesis
      by (simp add: Execute_ran[OF assms] Let_def l prepared_simps)
  next
    case False
    have "fold emit out ?s4' = ?s4'\<lparr>logged := logged ?s4' @ map snd out\<rparr>"
      by (rule fold_emit_log) (simp_all add: o e prepared_simps False)
    then show ?thesis
      by (simp add: Execute_ran[OF assms] Let_def l prepared_simps)
  qed
qed

lemma Execute_success_runs:
  assumes "snd (fst (Execute d options command s)) = None"
  shows "filter isRun (trace (snd (Execute d options command s))) =
           filter isRun (trace s) @ [Run (cwd s) ''mvn'' (parameterOrder options)]"
proof -
  have ok: "snd (fst (builtParameters d options s)) = None"
    using assms by (simp add: Execute_error split: option.splits)
  then have "fst (fst (builtParameters d options s)) = parameterOrder options"
    unfolding builtParameters_def by (rule getParametersFromOptions_success)
  then show ?thesis using ok by (simp add: Execute_runs)
qed

lemma downloads_no_action: "list_all isDownload dl \<Longrightarrow> filter isAction dl = []"
  by (induction dl) (auto elim: isDownload.elims)

lemma downloadsOnly_actions:
  assumes "downloadsOnly s s'"
  shows "filter isAction (trace s') = filter isAction (trace s)"
proof -
  from assms obtain w' dl where
    a: "s' = s\<lparr>world := w', trace := trace s @ dl\<rparr>" "list_all isDownload dl"
    unfolding downloadsOnly_def by blast
  show ?thesis using a by (simp add: downloads_no_action)
qed

lemma Execute_actions:
  "filter isAction (trace (snd (Execute d options command s))) =
     filter isAction (trace s) @
       (if snd (fst (builtParameters d options s)) = None
        then [Run (cwd s) ''mvn'' (fst (fst (builtParameters d options s)))] else [])"
proof -
  have f: "filter isAction (trace (snd (builtParameters d options s))) = filter isAction (trace s)"
    using downloadsOnly_actions[OF builtParameters_frame] by (simp add: prepared_simps)
  show ?thesis
  proof (cases "snd (fst (builtParameters d options s))")
    case (Some e)
    then show ?thesis by (simp add: Execute_failed_parameters f)
  next
    case None
    obtain out err w' where r: "runnerResult d options command s = (out, err, w')"
      by (cases "runnerResult d options command s")
    show ?thesis using None
      by (simp add: Execute_ran[OF None r] Let_def fold_emit_frame f split: option.split)
  qed
qed

lemma Execute_success_actions:
  assumes "snd (fst (Execute d options command s)) = None"
  shows "filter isAction (trace (snd (Execute d options command s))) =
           filter isAction (trace s) @ [Run (cwd s) ''mvn'' (parameterOrder options)]"
proof -
  have ok: "snd (fst (builtParameters d options s)) = None"
    using assms by (simp add: Execute_error split: option.splits)
  then have "fst (fst (builtParameters d options s)) = parameterOrder options"
    unfolding builtParameters_def by (rule getParametersFromOptions_success)
  then show ?thesis using ok by (simp add: Execute_actions)
qed

section \<open>Lemmas: Evaluate and InstallFile\<close>

lemma Evaluate_eq:
  "Evaluate d options expression command s =
     (case Execute d (evaluateExecuteOptions options expression) command s of
        ((v, Some err), s') \<Rightarrow> (([], Some err), s')
      | ((v, None), s') \<Rightarrow>
          (if strings_HasPrefix v ''null object or invalid expression''
           then (([], Some (NotResolved expression (EvaluateOptions.PomPath options))), s')
           else ((v, None), s')))"
  by (simp add: Evaluate_def evaluateExecuteOptions_def Let_def)

lemma Evaluate_state:
  "snd (Evaluate d options expression command s) =
     snd (Execute d (evaluateExecuteOptions options expression) command s)"
  by (simp add: Evaluate_eq case_prod_beta split: option.split)

lemma Evaluate_success:
  "snd (fst (Evaluate d options expression command s)) = None \<Longrightarrow>
   snd (fst (Execute d (evaluateExecuteOptions options expression) command s)) = None"
  by (simp add: Evaluate_eq case_prod_beta split: option.splits if_splits)

lemma InstallFile_eq:
  "pomFile \<noteq> [] \<Longrightarrow>
   InstallFile d fl pomFile m2Path command s =
     (case Execute d (installExecuteOptions fl pomFile m2Path) command s of
        ((v, Some err), s') \<Rightarrow> (Some (InstallFailed err), s')
      | ((v, None), s') \<Rightarrow> (None, s'))"
  by (simp add: InstallFile_def installExecuteOptions_def installDefines_def Let_def)

lemma InstallFile_state:
  "pomFile \<noteq> [] \<Longrightarrow>
   snd (InstallFile d fl pomFile m2Path command s) =
     snd (Execute d (installExecuteOptions fl pomFile m2Path) command s)"
  by (simp add: InstallFile_eq case_prod_beta split: option.split)

lemma install_builtParameters:
  "builtParameters d (installExecuteOptions fl pomFile m2Path) s =
     ((restParameters (installExecuteOptions fl pomFile m2Path), None),
      prepared (installExecuteOptions fl pomFile m2Path) s)"
  by (simp add: builtParameters_def no_settings_parameters installExecuteOptions_def)

lemma Evaluate_cwd: "cwd (snd (Evaluate d options expression command s)) = cwd s"
  by (simp add: Evaluate_state Execute_cwd)

lemma Evaluate_chdirs:
  "filter isChdir (trace (snd (Evaluate d options expression command s))) = filter isChdir (trace s)"
  by (simp add: Evaluate_state Execute_chdirs)

lemma Evaluate_actions:
  "snd (fst (Evaluate d options expression command s)) = None \<Longrightarrow>
   filter isAction (trace (snd (Evaluate d options expression command s))) =
     filter isAction (trace s) @ [mvnEvaluate options (cwd s) expression]"
  using Execute_success_actions[of d "evaluateExecuteOptions options expression" command s]
    Evaluate_success[of d options expression command s]
  by (simp add: Evaluate_state mvnEvaluate_def)

lemma InstallFile_cwd: "cwd (snd (InstallFile d fl pomFile m2Path command s)) = cwd s"
  by (cases "pomFile = []") (simp_all add: InstallFile_def[of d fl "[]"] InstallFile_state Execute_cwd)

lemma InstallFile_chdirs:
  "filter isChdir (trace (snd (InstallFile d fl pomFile m2Path command s))) = filter isChdir (trace s)"
  by (cases "pomFile = []")
     (simp_all add: InstallFile_def[of d fl "[]"] InstallFile_state Execute_chdirs)

lemma install_parameterOrder:
  "parameterOrder (installExecuteOptions fl pomFile m2Path) =
     restParameters (installExecuteOptions fl pomFile m2Path)"
  by (simp add: parameterOrder_def restParameters_def installExecuteOptions_def)

lemma InstallFile_actions:
  "filter isAction (trace (snd (InstallFile d fl ''pom.xml'' m2Path command s))) =
     filter isAction (trace s) @ [mvnInstall m2Path (cwd s) fl]"
  by (simp add: InstallFile_state Execute_actions install_builtParameters mvnInstall_def
      install_parameterOrder)

lemma optionalInstall_effects:
  "cwd (snd (optionalInstall d b fl m2Path command s)) = cwd s"
  "filter isChdir (trace (snd (optionalInstall d b fl m2Path command s))) = filter isChdir (trace s)"
  "filter isAction (trace (snd (optionalInstall d b fl m2Path command s))) =
     filter isAction (trace s) @ (if b then [mvnInstall m2Path (cwd s) fl] else [])"
  by (simp_all add: optionalInstall_def InstallFile_cwd InstallFile_chdirs InstallFile_actions)

lemma Execute_plain:
  assumes "ExecuteOptions.GlobalSettingsFile options = []"
    and "ExecuteOptions.ProjectSettingsFile options = []"
    and "command ''mvn'' (restParameters options) (cwd s) (world s) = (out, None, w')"
  shows "Execute d options command s =
     ((if ReturnStdout options then stdoutBytes out else [], None),
      s\<lparr>world := w',
        stdoutWriter := (if ReturnStdout options
                         then MultiWriter LogWriter (BufferWriter (length (buffers s)))
                         else LogWriter),
        stderrWriter := LogWriter,
        buffers := (if ReturnStdout options then buffers s @ [stdoutBytes out] else buffers s),
        logged := logged s @ map snd out,
        trace := trace s @ [Run (cwd s) ''mvn'' (restParameters options)]\<rparr>)"
proof -
  have b: "builtParameters d options s = ((restParameters options, None), prepared options s)"
    by (simp add: builtParameters_def no_settings_parameters assms(1,2))
  have ok: "snd (fst (builtParameters d options s)) = None" by (simp add: b)
  have r: "runnerResult d options command s = (out, None, w')"
    by (simp add: runnerResult_def b prepared_simps assms(3))
  let ?s4 = "(prepared options s)\<lparr>world := w',
     trace := trace (prepared options s) @ [Run (cwd s) ''mvn'' (restParameters options)]\<rparr>"
  have p: "prepared options s =
      s\<lparr>stdoutWriter := (if ReturnStdout options
                         then MultiWriter LogWriter (BufferWriter (length (buffers s)))
                         else LogWriter),
        stderrWriter := LogWriter,
        buffers := (if ReturnStdout options then buffers s @ [[]] else buffers s)\<rparr>"
    by (simp add: prepared_def evaluateStdOut_def Stdout_def Stderr_def Let_def)
  show ?thesis
  proof (cases "ReturnStdout options")
    case True
    have "fold emit out ?s4 = ?s4\<lparr>logged := logged ?s4 @ map snd out,
       buffers := (buffers ?s4)[length (buffers s) := buffers ?s4 ! length (buffers s) @ stdoutBytes out]\<rparr>"
      by (rule fold_emit_multi) (simp_all add: prepared_simps True)
    then show ?thesis using True
      by (simp add: Execute_ran[OF ok r] Let_def b p)
  next
    case False
    have "fold emit out ?s4 = ?s4\<lparr>logged := logged ?s4 @ map snd out\<rparr>"
      by (rule fold_emit_log) (simp_all add: prepared_simps False)
    then show ?thesis using False
      by (simp add: Execute_ran[OF ok r] Let_def b p)
  qed
qed

lemma Execute_plain_eval:
  assumes "ExecuteOptions.GlobalSettingsFile options = []"
    and "ExecuteOptions.ProjectSettingsFile options = []"
    and "fst (snd (command ''mvn'' (restParameters options) (cwd s) (world s))) = None"
  shows "Execute d options command s =
     ((if ReturnStdout options
       then stdoutBytes (fst (command ''mvn'' (restParameters options) (cwd s) (world s)))
       else [], None),
      s\<lparr>world := snd (snd (command ''mvn'' (restParameters options) (cwd s) (world s))),
        stdoutWriter := (if ReturnStdout options
                         then MultiWriter LogWriter (BufferWriter (length (buffers s)))
                         else LogWriter),
        stderrWriter := LogWriter,
        buffers := (if ReturnStdout options
                    then buffers s @
                      [stdoutBytes (fst (command ''mvn'' (restParameters options) (cwd s) (world s)))]
                    else buffers s),
        logged := logged s @
          map snd (fst (command ''mvn'' (restParameters options) (cwd s) (world s))),
        trace := trace s @ [Run (cwd s) ''mvn'' (restParameters options)]\<rparr>)"
proof -
  obtain out err w' where
    r: "command ''mvn'' (restParameters options) (cwd s) (world s) = (out, err, w')"
    by (cases "command ''mvn'' (restParameters options) (cwd s) (world s)")
  with assms(3) have r': "command ''mvn'' (restParameters options) (cwd s) (world s) = (out, None, w')"
    by simp
  show ?thesis
    using Execute_plain[where options=options and command=command and s=s and out=out
        and w'=w' and d=d] assms(1,2) r'
    by simp
qed

section \<open>The order of the Maven parameters\<close>

text \<open>
  Claim C1. Whenever \<open>getParametersFromOptions\<close> returns no error, the parameter list is,
  in this order: \<open>--global-settings\<close> and the global settings file (only when
  \<open>GlobalSettingsFile\<close> is non-empty), \<open>--settings\<close> and the project settings file (only
  when \<open>ProjectSettingsFile\<close> is non-empty), \<open>-Dmaven.repo.local=\<close> with \<open>M2Path\<close> (only
  when non-empty), \<open>--file\<close> and \<open>PomPath\<close> (only when non-empty), the flags, the defines,
  the define that silences the transfer listener (only when \<open>LogSuccessfulMavenTransfers\<close>
  is false), \<open>--batch-mode\<close>, the goals. A settings file is the option itself, or the
  fixed local path when the option is a URL. With an error the list is empty, and there is
  no error when neither settings option is a URL.
\<close>

theorem getParametersFromOptions_order:
  "(snd (fst (getParametersFromOptions options utils s)) = None \<longrightarrow>
      fst (fst (getParametersFromOptions options utils s)) = parameterOrder options)
   \<and> (snd (fst (getParametersFromOptions options utils s)) \<noteq> None \<longrightarrow>
      fst (fst (getParametersFromOptions options utils s)) = [])
   \<and> (\<not> isURL (ExecuteOptions.GlobalSettingsFile options)
        \<and> \<not> isURL (ExecuteOptions.ProjectSettingsFile options) \<longrightarrow>
      snd (fst (getParametersFromOptions options utils s)) = None)"
proof (intro conjI impI)
  assume "snd (fst (getParametersFromOptions options utils s)) = None"
  then show "fst (fst (getParametersFromOptions options utils s)) = parameterOrder options"
    by (rule getParametersFromOptions_success)
next
  assume "snd (fst (getParametersFromOptions options utils s)) \<noteq> None"
  then show "fst (fst (getParametersFromOptions options utils s)) = []"
    by (simp add: getParametersFromOptions_stages case_prod_beta split: sum.splits)
next
  assume "\<not> isURL (ExecuteOptions.GlobalSettingsFile options)
        \<and> \<not> isURL (ExecuteOptions.ProjectSettingsFile options)"
  then show "snd (fst (getParametersFromOptions options utils s)) = None"
    by (simp add: getParametersFromOptions_stages settingsStage_def downloadSettingsIfURL_def
        isURL_def)
qed

theorem getParametersFromOptions_order_witness:
  "snd (fst (getParametersFromOptions demoOptions (newUtils demoDeps) demoState)) = None
   \<and> fst (fst (getParametersFromOptions demoOptions (newUtils demoDeps) demoState)) =
       [''--global-settings'', ''.pipeline/mavenGlobalSettings.xml'',
        ''--settings'', ''settings.xml'',
        ''-Dmaven.repo.local=/m2'',
        ''--file'', ''pom.xml'',
        ''-X'',
        ''-DskipTests'',
        ''-Dorg.slf4j.simpleLogger.log.org.apache.maven.cli.transfer.Slf4jMavenTransferListener=warn'',
        ''--batch-mode'',
        ''clean'', ''install'']
   \<and> snd (fst (getParametersFromOptions demoOptions (newUtils offlineDeps) demoState)) \<noteq> None
   \<and> fst (fst (getParametersFromOptions demoOptions (newUtils offlineDeps) demoState)) = []
   \<and> \<not> isURL (ExecuteOptions.GlobalSettingsFile
               (demoOptions\<lparr>ExecuteOptions.GlobalSettingsFile := ''global.xml''\<rparr>))
   \<and> \<not> isURL (ExecuteOptions.ProjectSettingsFile
               (demoOptions\<lparr>ExecuteOptions.GlobalSettingsFile := ''global.xml''\<rparr>))
   \<and> snd (fst (getParametersFromOptions
                  (demoOptions\<lparr>ExecuteOptions.GlobalSettingsFile := ''global.xml''\<rparr>)
                  (newUtils offlineDeps) demoState)) = None"
proof -
  have ok: "snd (fst (getParametersFromOptions demoOptions (newUtils demoDeps) demoState)) = None"
    by (simp add: getParametersFromOptions_def downloadSettingsIfURL_def
        downloadSettingsFromURL_def strings_HasPrefix_def demoOptions_def demoDeps_def
        demoState_def newUtils_def)
  have failed:
    "snd (fst (getParametersFromOptions demoOptions (newUtils offlineDeps) demoState)) \<noteq> None"
    by (simp add: getParametersFromOptions_def downloadSettingsIfURL_def
        downloadSettingsFromURL_def strings_HasPrefix_def demoOptions_def demoDeps_def
        offlineDeps_def demoState_def newUtils_def)
  have plain:
    "\<not> isURL (ExecuteOptions.GlobalSettingsFile
               (demoOptions\<lparr>ExecuteOptions.GlobalSettingsFile := ''global.xml''\<rparr>))"
    "\<not> isURL (ExecuteOptions.ProjectSettingsFile
               (demoOptions\<lparr>ExecuteOptions.GlobalSettingsFile := ''global.xml''\<rparr>))"
    by (simp_all add: isURL_def strings_HasPrefix_def demoOptions_def)
  show ?thesis
    using ok failed plain
      getParametersFromOptions_order[of demoOptions "newUtils demoDeps" demoState]
      getParametersFromOptions_order[of demoOptions "newUtils offlineDeps" demoState]
      getParametersFromOptions_order[of
        "demoOptions\<lparr>ExecuteOptions.GlobalSettingsFile := ''global.xml''\<rparr>"
        "newUtils offlineDeps" demoState]
    by (simp add: parameterOrder_def settingsFileName_def isURL_def strings_HasPrefix_def
        demoOptions_def)
qed

section \<open>Execute\<close>

text \<open>
  Claim C4. \<open>Execute\<close> builds the parameters with \<open>getParametersFromOptions\<close> (from the
  state in which the runner's writers are set). When that fails the runner is not run at
  all; when it succeeds the runner is run exactly once, in the working directory, with the
  executable \<open>mvn\<close> and exactly the parameters built. \<open>Execute\<close> returns an error if and only
  if building the parameters failed or the runner returned an error, and then the string it
  returns is empty.
\<close>

theorem Execute_runner_once:
  "(snd (fst (builtParameters d options s)) \<noteq> None \<longrightarrow>
      filter isRun (trace (snd (Execute d options command s))) = filter isRun (trace s))
   \<and> (snd (fst (builtParameters d options s)) = None \<longrightarrow>
      filter isRun (trace (snd (Execute d options command s))) =
        filter isRun (trace s) @ [Run (cwd s) ''mvn'' (fst (fst (builtParameters d options s)))])
   \<and> ((snd (fst (Execute d options command s)) \<noteq> None) =
        (snd (fst (builtParameters d options s)) \<noteq> None
         \<or> fst (snd (runnerResult d options command s)) \<noteq> None))
   \<and> (snd (fst (Execute d options command s)) \<noteq> None \<longrightarrow>
        fst (fst (Execute d options command s)) = [])"
proof (intro conjI impI)
  assume "snd (fst (builtParameters d options s)) \<noteq> None"
  then show "filter isRun (trace (snd (Execute d options command s))) = filter isRun (trace s)"
    by (simp add: Execute_runs)
next
  assume "snd (fst (builtParameters d options s)) = None"
  then show "filter isRun (trace (snd (Execute d options command s))) =
        filter isRun (trace s) @ [Run (cwd s) ''mvn'' (fst (fst (builtParameters d options s)))]"
    by (simp add: Execute_runs)
next
  show "(snd (fst (Execute d options command s)) \<noteq> None) =
        (snd (fst (builtParameters d options s)) \<noteq> None
         \<or> fst (snd (runnerResult d options command s)) \<noteq> None)"
    by (simp add: Execute_error split: option.split)
next
  assume "snd (fst (Execute d options command s)) \<noteq> None"
  then show "fst (fst (Execute d options command s)) = []"
    by (rule Execute_error_value)
qed

lemma demo_built:
  "builtParameters demoDeps demoOptions demoState =
    (([''--global-settings'', ''.pipeline/mavenGlobalSettings.xml'',
        ''--settings'', ''settings.xml'',
        ''-Dmaven.repo.local=/m2'',
        ''--file'', ''pom.xml'',
        ''-X'',
        ''-DskipTests'',
        ''-Dorg.slf4j.simpleLogger.log.org.apache.maven.cli.transfer.Slf4jMavenTransferListener=warn'',
        ''--batch-mode'',
        ''clean'', ''install''], None),
     \<lparr>cwd = ''/work'',
      world = [''.pipeline/mavenGlobalSettings.xml'', ''target/app-1.0.jar''],
      stdoutWriter = MultiWriter LogWriter (BufferWriter 0),
      stderrWriter = LogWriter, buffers = [[]], logged = [],
      trace = [Download ''https://example.org/global.xml'' ''.pipeline/mavenGlobalSettings.xml'']\<rparr>)"
  by (simp add: builtParameters_def prepared_def evaluateStdOut_def Stdout_def Stderr_def
      getParametersFromOptions_def downloadSettingsIfURL_def
      downloadSettingsFromURL_def strings_HasPrefix_def demoOptions_def demoDeps_def
      demoState_def newUtils_def)

lemma offline_built:
  "fst (builtParameters offlineDeps demoOptions demoState) =
    ([], Some (DownloadFailed ''https://example.org/global.xml''
                 ''.pipeline/mavenGlobalSettings.xml'' (External ''offline'')))"
  by (simp add: builtParameters_def prepared_def evaluateStdOut_def Stdout_def Stderr_def
      getParametersFromOptions_def downloadSettingsIfURL_def
      downloadSettingsFromURL_def strings_HasPrefix_def demoOptions_def demoDeps_def
      offlineDeps_def demoState_def newUtils_def)

theorem Execute_runner_once_witness:
  "snd (fst (builtParameters demoDeps demoOptions demoState)) = None
   \<and> filter isRun (trace (snd (Execute demoDeps demoOptions demoRunner demoState))) =
       [Run ''/work'' ''mvn''
         [''--global-settings'', ''.pipeline/mavenGlobalSettings.xml'',
          ''--settings'', ''settings.xml'',
          ''-Dmaven.repo.local=/m2'',
          ''--file'', ''pom.xml'',
          ''-X'',
          ''-DskipTests'',
          ''-Dorg.slf4j.simpleLogger.log.org.apache.maven.cli.transfer.Slf4jMavenTransferListener=warn'',
          ''--batch-mode'',
          ''clean'', ''install'']]
   \<and> snd (fst (Execute demoDeps demoOptions demoRunner demoState)) = None
   \<and> snd (fst (builtParameters offlineDeps demoOptions demoState)) \<noteq> None
   \<and> filter isRun (trace (snd (Execute offlineDeps demoOptions demoRunner demoState))) = []
   \<and> snd (fst (Execute offlineDeps demoOptions demoRunner demoState)) \<noteq> None
   \<and> fst (fst (Execute offlineDeps demoOptions demoRunner demoState)) = []"
  using Execute_runner_once[of demoDeps demoOptions demoState demoRunner]
    Execute_runner_once[of offlineDeps demoOptions demoState demoRunner]
  by (simp add: demo_built offline_built runnerResult_def demoRunner_def)
     (simp add: demoState_def)

text \<open>
  Claim C10. When the parameters are built and the runner returns no error, \<open>Execute\<close>
  returns the empty string if \<open>ReturnStdout\<close> is false, and otherwise exactly the bytes the
  runner wrote to its standard output writer, in order. Every chunk the runner wrote, to
  either writer, has also reached the log writer.
\<close>

theorem Execute_returns_stdout:
  "snd (fst (builtParameters d options s)) = None \<Longrightarrow>
   runnerResult d options command s = (out, None, w') \<Longrightarrow>
   fst (Execute d options command s) = (if ReturnStdout options then stdoutBytes out else [], None)
   \<and> logged (snd (Execute d options command s)) = logged s @ map snd out"
  using Execute_output[of d options s command out w'] by simp

theorem Execute_returns_stdout_witness:
  "snd (fst (builtParameters demoDeps demoOptions demoState)) = None
   \<and> runnerResult demoDeps demoOptions demoRunner demoState =
       ([(ToStdout, ''BUILD''), (ToStderr, ''warning''), (ToStdout, '' SUCCESS'')], None,
        [''.pipeline/mavenGlobalSettings.xml'', ''target/app-1.0.jar''])
   \<and> ReturnStdout demoOptions
   \<and> fst (Execute demoDeps demoOptions demoRunner demoState) = (''BUILD SUCCESS'', None)
   \<and> logged (snd (Execute demoDeps demoOptions demoRunner demoState)) =
       [''BUILD'', ''warning'', '' SUCCESS'']"
proof -
  have b: "snd (fst (builtParameters demoDeps demoOptions demoState)) = None"
    by (simp add: demo_built)
  have r: "runnerResult demoDeps demoOptions demoRunner demoState =
       ([(ToStdout, ''BUILD''), (ToStderr, ''warning''), (ToStdout, '' SUCCESS'')], None,
        [''.pipeline/mavenGlobalSettings.xml'', ''target/app-1.0.jar''])"
    by (simp add: runnerResult_def demoRunner_def demo_built)
  have o: "ReturnStdout demoOptions" by (simp add: demoOptions_def)
  show ?thesis
    using Execute_returns_stdout[OF b r] b r o
    by (simp add: stdoutBytes_def demoState_def)
qed

section \<open>Evaluate\<close>

text \<open>
  Claim C3. \<open>Evaluate\<close> returns the empty string with an error if and only if the underlying
  \<open>Execute\<close> fails or the output it captured starts with
  \<open>null object or invalid expression\<close>; in every other case it returns the captured output
  unchanged, with no error.
\<close>

theorem Evaluate_result:
  "((fst (fst (Evaluate d options expression command s)) = []
      \<and> snd (fst (Evaluate d options expression command s)) \<noteq> None) =
    (snd (fst (Execute d (evaluateExecuteOptions options expression) command s)) \<noteq> None
      \<or> strings_HasPrefix
           (fst (fst (Execute d (evaluateExecuteOptions options expression) command s)))
           ''null object or invalid expression''))
   \<and> (\<not> (snd (fst (Execute d (evaluateExecuteOptions options expression) command s)) \<noteq> None
          \<or> strings_HasPrefix
               (fst (fst (Execute d (evaluateExecuteOptions options expression) command s)))
               ''null object or invalid expression'') \<longrightarrow>
        fst (Evaluate d options expression command s) =
          (fst (fst (Execute d (evaluateExecuteOptions options expression) command s)), None))"
  by (cases "snd (fst (Execute d (evaluateExecuteOptions options expression) command s))")
     (simp_all add: Evaluate_eq case_prod_beta)

lemma demo_prepared:
  "prepared options demoState =
     \<lparr>cwd = ''/work'', world = [''target/app-1.0.jar''],
      stdoutWriter = (if ReturnStdout options then MultiWriter LogWriter (BufferWriter 0)
                      else LogWriter),
      stderrWriter = LogWriter,
      buffers = (if ReturnStdout options then [[]] else []),
      logged = [], trace = []\<rparr>"
  by (simp add: prepared_def evaluateStdOut_def Stdout_def Stderr_def demoState_def)

lemma demo_evaluate_built:
  "builtParameters d (evaluateExecuteOptions demoEvaluateOptions expression) demoState =
     (([''-Dmaven.repo.local=/m2'', ''--file'', ''pom.xml'',
        ''-Dexpression='' @ expression, ''-DforceStdout'', ''-q'',
        ''-Dorg.slf4j.simpleLogger.log.org.apache.maven.cli.transfer.Slf4jMavenTransferListener=warn'',
        ''--batch-mode'',
        ''org.apache.maven.plugins:maven-help-plugin:3.1.0:evaluate''], None),
      prepared (evaluateExecuteOptions demoEvaluateOptions expression) demoState)"
  by (simp add: builtParameters_def no_settings_parameters evaluateExecuteOptions_def
      demoEvaluateOptions_def restParameters_def)

lemma demo_evaluate_Execute:
  "fst (Execute demoDeps (evaluateExecuteOptions demoEvaluateOptions expression) demoRunner demoState)
     = (''BUILD SUCCESS'', None)"
proof -
  let ?o = "evaluateExecuteOptions demoEvaluateOptions expression"
  have b: "snd (fst (builtParameters demoDeps ?o demoState)) = None"
    by (simp add: demo_evaluate_built)
  have r: "runnerResult demoDeps ?o demoRunner demoState =
       ([(ToStdout, ''BUILD''), (ToStderr, ''warning''), (ToStdout, '' SUCCESS'')], None,
        [''target/app-1.0.jar''])"
    by (simp add: runnerResult_def demoRunner_def demo_evaluate_built demo_prepared)
  show ?thesis
    using Execute_output(1)[OF b r]
    by (simp add: stdoutBytes_def evaluateExecuteOptions_def)
qed

lemma null_evaluate_Execute:
  "fst (Execute demoDeps (evaluateExecuteOptions demoEvaluateOptions expression) nullRunner demoState)
     = (''null object or invalid expression'', None)"
proof -
  let ?o = "evaluateExecuteOptions demoEvaluateOptions expression"
  have b: "snd (fst (builtParameters demoDeps ?o demoState)) = None"
    by (simp add: demo_evaluate_built)
  have r: "runnerResult demoDeps ?o nullRunner demoState =
       ([(ToStdout, ''null object or invalid expression'')], None, [''target/app-1.0.jar''])"
    by (simp add: runnerResult_def nullRunner_def demo_evaluate_built demo_prepared)
  show ?thesis
    using Execute_output(1)[OF b r]
    by (simp add: stdoutBytes_def evaluateExecuteOptions_def)
qed

theorem Evaluate_result_witness:
  "fst (Evaluate demoDeps demoEvaluateOptions ''project.version'' demoRunner demoState)
     = (''BUILD SUCCESS'', None)
   \<and> fst (fst (Evaluate demoDeps demoEvaluateOptions ''project.version'' nullRunner demoState)) = []
   \<and> snd (fst (Evaluate demoDeps demoEvaluateOptions ''project.version'' nullRunner demoState)) \<noteq> None"
  using Evaluate_result[of demoDeps demoEvaluateOptions "''project.version''" demoRunner demoState]
    Evaluate_result[of demoDeps demoEvaluateOptions "''project.version''" nullRunner demoState]
  by (simp add: demo_evaluate_Execute null_evaluate_Execute strings_HasPrefix_def)

text \<open>
  Claim C5. The state \<open>Evaluate\<close> leaves is the one \<open>Execute\<close> leaves when run with the
  goal \<open>org.apache.maven.plugins:maven-help-plugin:3.1.0:evaluate\<close>, the defines
  \<open>-Dexpression=\<close> and the expression, \<open>-DforceStdout\<close> and \<open>-q\<close>, \<open>ReturnStdout\<close> true, and
  \<open>PomPath\<close>, \<open>M2Path\<close>, \<open>ProjectSettingsFile\<close> and \<open>GlobalSettingsFile\<close> as in the given
  options. When \<open>Evaluate\<close> returns no error, Maven was run once with the command line these
  options give.
\<close>

theorem Evaluate_runs_help_plugin:
  "snd (Evaluate d options expression command s) =
     snd (Execute d (evaluateExecuteOptions options expression) command s)
   \<and> Goals (evaluateExecuteOptions options expression) =
       [''org.apache.maven.plugins:maven-help-plugin:3.1.0:evaluate'']
   \<and> Defines (evaluateExecuteOptions options expression) =
       [''-Dexpression='' @ expression, ''-DforceStdout'', ''-q'']
   \<and> ReturnStdout (evaluateExecuteOptions options expression)
   \<and> ExecuteOptions.PomPath (evaluateExecuteOptions options expression) =
       EvaluateOptions.PomPath options
   \<and> ExecuteOptions.M2Path (evaluateExecuteOptions options expression) =
       EvaluateOptions.M2Path options
   \<and> ExecuteOptions.ProjectSettingsFile (evaluateExecuteOptions options expression) =
       EvaluateOptions.ProjectSettingsFile options
   \<and> ExecuteOptions.GlobalSettingsFile (evaluateExecuteOptions options expression) =
       EvaluateOptions.GlobalSettingsFile options
   \<and> (snd (fst (Evaluate d options expression command s)) = None \<longrightarrow>
        filter isRun (trace (snd (Evaluate d options expression command s))) =
          filter isRun (trace s) @
          [Run (cwd s) ''mvn''
            ((if EvaluateOptions.GlobalSettingsFile options \<noteq> []
              then [''--global-settings'',
                    settingsFileName (EvaluateOptions.GlobalSettingsFile options)
                      ''.pipeline/mavenGlobalSettings.xml'']
              else [])
             @ (if EvaluateOptions.ProjectSettingsFile options \<noteq> []
                then [''--settings'',
                      settingsFileName (EvaluateOptions.ProjectSettingsFile options)
                        ''.pipeline/mavenProjectSettings.xml'']
                else [])
             @ (if EvaluateOptions.M2Path options \<noteq> []
                then [''-Dmaven.repo.local='' @ EvaluateOptions.M2Path options] else [])
             @ (if EvaluateOptions.PomPath options \<noteq> []
                then [''--file'', EvaluateOptions.PomPath options] else [])
             @ [''-Dexpression='' @ expression, ''-DforceStdout'', ''-q'',
                ''-Dorg.slf4j.simpleLogger.log.org.apache.maven.cli.transfer.Slf4jMavenTransferListener=warn'',
                ''--batch-mode'',
                ''org.apache.maven.plugins:maven-help-plugin:3.1.0:evaluate''])])"
proof -
  have "snd (fst (Evaluate d options expression command s)) = None \<longrightarrow>
        filter isRun (trace (snd (Evaluate d options expression command s))) =
          filter isRun (trace s) @
          [Run (cwd s) ''mvn'' (parameterOrder (evaluateExecuteOptions options expression))]"
    using Execute_success_runs[of d "evaluateExecuteOptions options expression" command s]
      Evaluate_success[of d options expression command s]
    by (simp add: Evaluate_state)
  then show ?thesis
    by (simp add: Evaluate_state) (simp add: evaluateExecuteOptions_def parameterOrder_def)
qed

theorem Evaluate_runs_help_plugin_witness:
  "snd (fst (Evaluate demoDeps demoEvaluateOptions ''project.version'' demoRunner demoState)) = None
   \<and> filter isRun
        (trace (snd (Evaluate demoDeps demoEvaluateOptions ''project.version'' demoRunner demoState))) =
       [Run ''/work'' ''mvn''
         [''-Dmaven.repo.local=/m2'', ''--file'', ''pom.xml'',
          ''-Dexpression=project.version'', ''-DforceStdout'', ''-q'',
          ''-Dorg.slf4j.simpleLogger.log.org.apache.maven.cli.transfer.Slf4jMavenTransferListener=warn'',
          ''--batch-mode'',
          ''org.apache.maven.plugins:maven-help-plugin:3.1.0:evaluate'']]"
proof -
  have ok: "snd (fst (Evaluate demoDeps demoEvaluateOptions ''project.version'' demoRunner demoState)) = None"
    by (simp add: Evaluate_eq case_prod_beta demo_evaluate_Execute strings_HasPrefix_def)
  have sel: "EvaluateOptions.GlobalSettingsFile demoEvaluateOptions = []"
    "EvaluateOptions.ProjectSettingsFile demoEvaluateOptions = []"
    "EvaluateOptions.M2Path demoEvaluateOptions = ''/m2''"
    "EvaluateOptions.PomPath demoEvaluateOptions = ''pom.xml''"
    "cwd demoState = ''/work''" "trace demoState = []"
    by (simp_all add: demoEvaluateOptions_def demoState_def)
  show ?thesis
    using ok Evaluate_runs_help_plugin[of demoDeps demoEvaluateOptions "''project.version''"
        demoRunner demoState]
    by (simp add: sel Evaluate_state)
qed

section \<open>Settings files given as URLs\<close>

text \<open>
  Claim C6. For a settings option that starts with \<open>http:\<close> or \<open>https:\<close>: when the local
  file exists nothing is downloaded and the local path is returned; otherwise the URL is
  downloaded to the local path, which is returned when the download succeeds, while a
  failed download is returned as an error. Any other option is returned unchanged and
  nothing is downloaded. In the parameters, the path after \<open>--global-settings\<close> is
  \<open>.pipeline/mavenGlobalSettings.xml\<close> for a URL and the option itself otherwise, and the
  path after \<open>--settings\<close> is \<open>.pipeline/mavenProjectSettings.xml\<close> for a URL and the option
  itself otherwise. Building the parameters does exactly this: it downloads the global
  settings to \<open>.pipeline/mavenGlobalSettings.xml\<close> when they are a URL and that file does
  not exist, then the project settings to \<open>.pipeline/mavenProjectSettings.xml\<close> when they
  are a URL and that file does not exist, and changes nothing else; it fails exactly when
  one of these downloads fails, and then stops.
\<close>

theorem settings_downloaded_if_url:
  "(isURL opt \<and> fst (FileExists utils settingsFile (cwd s) (world s)) \<longrightarrow>
      downloadSettingsIfURL opt settingsFile utils s = ((settingsFile, None), s))
   \<and> (isURL opt \<and> \<not> fst (FileExists utils settingsFile (cwd s) (world s))
        \<and> fst (DownloadFile utils opt settingsFile (cwd s) (world s)) = None \<longrightarrow>
      downloadSettingsIfURL opt settingsFile utils s =
        ((settingsFile, None),
         s\<lparr>world := snd (DownloadFile utils opt settingsFile (cwd s) (world s)),
           trace := trace s @ [Download opt settingsFile]\<rparr>))
   \<and> (isURL opt \<and> \<not> fst (FileExists utils settingsFile (cwd s) (world s))
        \<and> fst (DownloadFile utils opt settingsFile (cwd s) (world s)) = Some e \<longrightarrow>
      downloadSettingsIfURL opt settingsFile utils s =
        (([], Some (DownloadFailed opt settingsFile e)),
         s\<lparr>world := snd (DownloadFile utils opt settingsFile (cwd s) (world s)),
           trace := trace s @ [Download opt settingsFile]\<rparr>))
   \<and> (\<not> isURL opt \<longrightarrow> downloadSettingsIfURL opt settingsFile utils s = ((opt, None), s))
   \<and> (snd (fst (getParametersFromOptions options utils s)) = None
        \<and> ExecuteOptions.GlobalSettingsFile options \<noteq> [] \<longrightarrow>
      take 2 (fst (fst (getParametersFromOptions options utils s))) =
        [''--global-settings'',
         if isURL (ExecuteOptions.GlobalSettingsFile options)
         then ''.pipeline/mavenGlobalSettings.xml''
         else ExecuteOptions.GlobalSettingsFile options])
   \<and> (snd (fst (getParametersFromOptions options utils s)) = None
        \<and> ExecuteOptions.ProjectSettingsFile options \<noteq> [] \<longrightarrow>
      take 2 (drop (if ExecuteOptions.GlobalSettingsFile options \<noteq> [] then 2 else 0)
                (fst (fst (getParametersFromOptions options utils s)))) =
        [''--settings'',
         if isURL (ExecuteOptions.ProjectSettingsFile options)
         then ''.pipeline/mavenProjectSettings.xml''
         else ExecuteOptions.ProjectSettingsFile options])
   \<and> getParametersFromOptions options utils s =
       (case downloadError (ExecuteOptions.GlobalSettingsFile options)
               ''.pipeline/mavenGlobalSettings.xml'' utils s of
          Some e \<Rightarrow>
            (([], Some e),
             afterDownload (ExecuteOptions.GlobalSettingsFile options)
               ''.pipeline/mavenGlobalSettings.xml'' utils s)
        | None \<Rightarrow>
            (case downloadError (ExecuteOptions.ProjectSettingsFile options)
                    ''.pipeline/mavenProjectSettings.xml'' utils
                    (afterDownload (ExecuteOptions.GlobalSettingsFile options)
                       ''.pipeline/mavenGlobalSettings.xml'' utils s) of
               Some e \<Rightarrow>
                 (([], Some e),
                  afterDownload (ExecuteOptions.ProjectSettingsFile options)
                    ''.pipeline/mavenProjectSettings.xml'' utils
                    (afterDownload (ExecuteOptions.GlobalSettingsFile options)
                       ''.pipeline/mavenGlobalSettings.xml'' utils s))
             | None \<Rightarrow>
                 ((parameterOrder options, None),
                  afterDownload (ExecuteOptions.ProjectSettingsFile options)
                    ''.pipeline/mavenProjectSettings.xml'' utils
                    (afterDownload (ExecuteOptions.GlobalSettingsFile options)
                       ''.pipeline/mavenGlobalSettings.xml'' utils s))))"
proof (intro conjI impI)
  assume "isURL opt \<and> fst (FileExists utils settingsFile (cwd s) (world s))"
  then show "downloadSettingsIfURL opt settingsFile utils s = ((settingsFile, None), s)"
    by (simp add: downloadSettingsIfURL_def downloadSettingsFromURL_def isURL_def)
next
  assume "isURL opt \<and> \<not> fst (FileExists utils settingsFile (cwd s) (world s))
        \<and> fst (DownloadFile utils opt settingsFile (cwd s) (world s)) = None"
  then show "downloadSettingsIfURL opt settingsFile utils s =
        ((settingsFile, None),
         s\<lparr>world := snd (DownloadFile utils opt settingsFile (cwd s) (world s)),
           trace := trace s @ [Download opt settingsFile]\<rparr>)"
    by (simp add: downloadSettingsIfURL_def downloadSettingsFromURL_def isURL_def
        case_prod_beta Let_def)
next
  assume "isURL opt \<and> \<not> fst (FileExists utils settingsFile (cwd s) (world s))
        \<and> fst (DownloadFile utils opt settingsFile (cwd s) (world s)) = Some e"
  then show "downloadSettingsIfURL opt settingsFile utils s =
        (([], Some (DownloadFailed opt settingsFile e)),
         s\<lparr>world := snd (DownloadFile utils opt settingsFile (cwd s) (world s)),
           trace := trace s @ [Download opt settingsFile]\<rparr>)"
    by (simp add: downloadSettingsIfURL_def downloadSettingsFromURL_def isURL_def
        case_prod_beta Let_def)
next
  assume "\<not> isURL opt"
  then show "downloadSettingsIfURL opt settingsFile utils s = ((opt, None), s)"
    by (simp add: downloadSettingsIfURL_def isURL_def)
next
  assume a: "snd (fst (getParametersFromOptions options utils s)) = None
        \<and> ExecuteOptions.GlobalSettingsFile options \<noteq> []"
  then have "fst (fst (getParametersFromOptions options utils s)) = parameterOrder options"
    by (simp add: getParametersFromOptions_success)
  then show "take 2 (fst (fst (getParametersFromOptions options utils s))) =
        [''--global-settings'',
         if isURL (ExecuteOptions.GlobalSettingsFile options)
         then ''.pipeline/mavenGlobalSettings.xml''
         else ExecuteOptions.GlobalSettingsFile options]"
    using a by (simp add: parameterOrder_def settingsFileName_def)
next
  assume a: "snd (fst (getParametersFromOptions options utils s)) = None
        \<and> ExecuteOptions.ProjectSettingsFile options \<noteq> []"
  then have "fst (fst (getParametersFromOptions options utils s)) = parameterOrder options"
    by (simp add: getParametersFromOptions_success)
  then show "take 2 (drop (if ExecuteOptions.GlobalSettingsFile options \<noteq> [] then 2 else 0)
                (fst (fst (getParametersFromOptions options utils s)))) =
        [''--settings'',
         if isURL (ExecuteOptions.ProjectSettingsFile options)
         then ''.pipeline/mavenProjectSettings.xml''
         else ExecuteOptions.ProjectSettingsFile options]"
    using a by (simp add: parameterOrder_def settingsFileName_def)
next
  show "getParametersFromOptions options utils s =
       (case downloadError (ExecuteOptions.GlobalSettingsFile options)
               ''.pipeline/mavenGlobalSettings.xml'' utils s of
          Some e \<Rightarrow>
            (([], Some e),
             afterDownload (ExecuteOptions.GlobalSettingsFile options)
               ''.pipeline/mavenGlobalSettings.xml'' utils s)
        | None \<Rightarrow>
            (case downloadError (ExecuteOptions.ProjectSettingsFile options)
                    ''.pipeline/mavenProjectSettings.xml'' utils
                    (afterDownload (ExecuteOptions.GlobalSettingsFile options)
                       ''.pipeline/mavenGlobalSettings.xml'' utils s) of
               Some e \<Rightarrow>
                 (([], Some e),
                  afterDownload (ExecuteOptions.ProjectSettingsFile options)
                    ''.pipeline/mavenProjectSettings.xml'' utils
                    (afterDownload (ExecuteOptions.GlobalSettingsFile options)
                       ''.pipeline/mavenGlobalSettings.xml'' utils s))
             | None \<Rightarrow>
                 ((parameterOrder options, None),
                  afterDownload (ExecuteOptions.ProjectSettingsFile options)
                    ''.pipeline/mavenProjectSettings.xml'' utils
                    (afterDownload (ExecuteOptions.GlobalSettingsFile options)
                       ''.pipeline/mavenGlobalSettings.xml'' utils s))))"
    by (rule getParametersFromOptions_fetch)
qed

lemma demo_parameters:
  "getParametersFromOptions demoOptions (newUtils demoDeps) demoState =
    (([''--global-settings'', ''.pipeline/mavenGlobalSettings.xml'',
        ''--settings'', ''settings.xml'',
        ''-Dmaven.repo.local=/m2'',
        ''--file'', ''pom.xml'',
        ''-X'',
        ''-DskipTests'',
        ''-Dorg.slf4j.simpleLogger.log.org.apache.maven.cli.transfer.Slf4jMavenTransferListener=warn'',
        ''--batch-mode'',
        ''clean'', ''install''], None),
     demoState\<lparr>world := [''.pipeline/mavenGlobalSettings.xml'', ''target/app-1.0.jar''],
       trace := [Download ''https://example.org/global.xml'' ''.pipeline/mavenGlobalSettings.xml'']\<rparr>)"
  by (simp add: getParametersFromOptions_def downloadSettingsIfURL_def
      downloadSettingsFromURL_def strings_HasPrefix_def demoOptions_def demoDeps_def
      demoState_def newUtils_def)

lemma demo_utils:
  "FileExists (newUtils demoDeps) f c w = (f \<in> set w, None)"
  "FileExists (newUtils offlineDeps) f c w = (f \<in> set w, None)"
  "DownloadFile (newUtils demoDeps) url f c w = (None, f # w)"
  "DownloadFile (newUtils offlineDeps) url f c w = (Some (External ''offline''), w)"
  by (simp_all add: newUtils_def demoDeps_def offlineDeps_def)

lemma demo_urls:
  "isURL ''http://repo/settings.xml''" "isURL ''https://example.org/global.xml''"
  "\<not> isURL ''settings.xml''"
  by (simp_all add: isURL_def strings_HasPrefix_def)

lemma url_options_sel:
  "ExecuteOptions.GlobalSettingsFile urlOptions = ''https://example.org/global.xml''"
  "ExecuteOptions.ProjectSettingsFile urlOptions = ''http://repo/settings.xml''"
  "isURL ''http://repo/settings.xml''" "isURL ''https://example.org/global.xml''"
  by (simp_all add: urlOptions_def demoOptions_def isURL_def strings_HasPrefix_def)

lemma first_six: "a \<and> b \<and> c \<and> d \<and> e \<and> f \<and> g \<Longrightarrow> a \<and> b \<and> c \<and> d \<and> e \<and> f"
  by blast

theorem settings_downloaded_if_url_witness:
  "(downloadSettingsIfURL ''http://repo/settings.xml'' ''.pipeline/mavenGlobalSettings.xml''
      (newUtils demoDeps) (demoState\<lparr>world := [''.pipeline/mavenGlobalSettings.xml'']\<rparr>) =
     ((''.pipeline/mavenGlobalSettings.xml'', None),
      demoState\<lparr>world := [''.pipeline/mavenGlobalSettings.xml'']\<rparr>)
   \<and> downloadSettingsIfURL ''https://example.org/global.xml'' ''.pipeline/mavenGlobalSettings.xml''
      (newUtils demoDeps) demoState =
     ((''.pipeline/mavenGlobalSettings.xml'', None),
      demoState\<lparr>world := [''.pipeline/mavenGlobalSettings.xml'', ''target/app-1.0.jar''],
        trace := [Download ''https://example.org/global.xml'' ''.pipeline/mavenGlobalSettings.xml'']\<rparr>)
   \<and> downloadSettingsIfURL ''https://example.org/global.xml'' ''.pipeline/mavenGlobalSettings.xml''
      (newUtils offlineDeps) demoState =
     (([], Some (DownloadFailed ''https://example.org/global.xml''
                   ''.pipeline/mavenGlobalSettings.xml'' (External ''offline''))),
      demoState\<lparr>world := [''target/app-1.0.jar''],
        trace := [Download ''https://example.org/global.xml'' ''.pipeline/mavenGlobalSettings.xml'']\<rparr>)
   \<and> downloadSettingsIfURL ''settings.xml'' ''.pipeline/mavenProjectSettings.xml''
      (newUtils demoDeps) demoState = ((''settings.xml'', None), demoState)
   \<and> take 2 (fst (fst (getParametersFromOptions demoOptions (newUtils demoDeps) demoState))) =
       [''--global-settings'', ''.pipeline/mavenGlobalSettings.xml'']
   \<and> take 2 (drop 2 (fst (fst (getParametersFromOptions demoOptions (newUtils demoDeps) demoState)))) =
       [''--settings'', ''settings.xml''])
   \<and> (getParametersFromOptions urlOptions (newUtils demoDeps) demoState =
     (([''--global-settings'', ''.pipeline/mavenGlobalSettings.xml'',
        ''--settings'', ''.pipeline/mavenProjectSettings.xml'',
        ''-Dmaven.repo.local=/m2'',
        ''--file'', ''pom.xml'',
        ''-X'',
        ''-DskipTests'',
        ''-Dorg.slf4j.simpleLogger.log.org.apache.maven.cli.transfer.Slf4jMavenTransferListener=warn'',
        ''--batch-mode'',
        ''clean'', ''install''], None),
      demoState
        \<lparr>world := [''.pipeline/mavenProjectSettings.xml'', ''.pipeline/mavenGlobalSettings.xml'',
                   ''target/app-1.0.jar''],
         trace := [Download ''https://example.org/global.xml'' ''.pipeline/mavenGlobalSettings.xml'',
                   Download ''http://repo/settings.xml'' ''.pipeline/mavenProjectSettings.xml'']\<rparr>)
   \<and> getParametersFromOptions urlOptions (newUtils demoDeps)
        (demoState\<lparr>world := [''.pipeline/mavenGlobalSettings.xml'']\<rparr>) =
     (([''--global-settings'', ''.pipeline/mavenGlobalSettings.xml'',
        ''--settings'', ''.pipeline/mavenProjectSettings.xml'',
        ''-Dmaven.repo.local=/m2'',
        ''--file'', ''pom.xml'',
        ''-X'',
        ''-DskipTests'',
        ''-Dorg.slf4j.simpleLogger.log.org.apache.maven.cli.transfer.Slf4jMavenTransferListener=warn'',
        ''--batch-mode'',
        ''clean'', ''install''], None),
      demoState
        \<lparr>world := [''.pipeline/mavenProjectSettings.xml'', ''.pipeline/mavenGlobalSettings.xml''],
         trace := [Download ''http://repo/settings.xml'' ''.pipeline/mavenProjectSettings.xml'']\<rparr>)
   \<and> getParametersFromOptions urlOptions (newUtils offlineDeps) demoState =
     (([], Some (DownloadFailed ''https://example.org/global.xml''
                   ''.pipeline/mavenGlobalSettings.xml'' (External ''offline''))),
      demoState
        \<lparr>world := [''target/app-1.0.jar''],
         trace := [Download ''https://example.org/global.xml'' ''.pipeline/mavenGlobalSettings.xml'']\<rparr>))"
proof -
  have helper: "downloadSettingsIfURL ''http://repo/settings.xml'' ''.pipeline/mavenGlobalSettings.xml''
      (newUtils demoDeps) (demoState\<lparr>world := [''.pipeline/mavenGlobalSettings.xml'']\<rparr>) =
     ((''.pipeline/mavenGlobalSettings.xml'', None),
      demoState\<lparr>world := [''.pipeline/mavenGlobalSettings.xml'']\<rparr>)
   \<and> downloadSettingsIfURL ''https://example.org/global.xml'' ''.pipeline/mavenGlobalSettings.xml''
      (newUtils demoDeps) demoState =
     ((''.pipeline/mavenGlobalSettings.xml'', None),
      demoState\<lparr>world := [''.pipeline/mavenGlobalSettings.xml'', ''target/app-1.0.jar''],
        trace := [Download ''https://example.org/global.xml'' ''.pipeline/mavenGlobalSettings.xml'']\<rparr>)
   \<and> downloadSettingsIfURL ''https://example.org/global.xml'' ''.pipeline/mavenGlobalSettings.xml''
      (newUtils offlineDeps) demoState =
     (([], Some (DownloadFailed ''https://example.org/global.xml''
                   ''.pipeline/mavenGlobalSettings.xml'' (External ''offline''))),
      demoState\<lparr>world := [''target/app-1.0.jar''],
        trace := [Download ''https://example.org/global.xml'' ''.pipeline/mavenGlobalSettings.xml'']\<rparr>)
   \<and> downloadSettingsIfURL ''settings.xml'' ''.pipeline/mavenProjectSettings.xml''
      (newUtils demoDeps) demoState = ((''settings.xml'', None), demoState)
   \<and> take 2 (fst (fst (getParametersFromOptions demoOptions (newUtils demoDeps) demoState))) =
       [''--global-settings'', ''.pipeline/mavenGlobalSettings.xml'']
   \<and> take 2 (drop 2 (fst (fst (getParametersFromOptions demoOptions (newUtils demoDeps) demoState)))) =
       [''--settings'', ''settings.xml'']"
  proof -
    have sel: "cwd demoState = ''/work''" "world demoState = [''target/app-1.0.jar'']"
      "trace demoState = []"
      "ExecuteOptions.GlobalSettingsFile demoOptions = ''https://example.org/global.xml''"
      "ExecuteOptions.ProjectSettingsFile demoOptions = ''settings.xml''"
      by (simp_all add: demoState_def demoOptions_def)
    show ?thesis
      using
        settings_downloaded_if_url[of "''http://repo/settings.xml''" "newUtils demoDeps"
          "''.pipeline/mavenGlobalSettings.xml''"
          "demoState\<lparr>world := [''.pipeline/mavenGlobalSettings.xml'']\<rparr>"
          "External ''offline''" demoOptions, THEN first_six]
        settings_downloaded_if_url[of "''https://example.org/global.xml''" "newUtils demoDeps"
          "''.pipeline/mavenGlobalSettings.xml''" demoState "External ''offline''" demoOptions, THEN first_six]
        settings_downloaded_if_url[of "''https://example.org/global.xml''" "newUtils offlineDeps"
          "''.pipeline/mavenGlobalSettings.xml''" demoState "External ''offline''" demoOptions, THEN first_six]
        settings_downloaded_if_url[of "''settings.xml''" "newUtils demoDeps"
          "''.pipeline/mavenProjectSettings.xml''" demoState "External ''offline''" demoOptions, THEN first_six]
      by (simp add: demo_utils demo_urls sel demo_parameters)
  qed
  have build: "getParametersFromOptions urlOptions (newUtils demoDeps) demoState =
     (([''--global-settings'', ''.pipeline/mavenGlobalSettings.xml'',
        ''--settings'', ''.pipeline/mavenProjectSettings.xml'',
        ''-Dmaven.repo.local=/m2'',
        ''--file'', ''pom.xml'',
        ''-X'',
        ''-DskipTests'',
        ''-Dorg.slf4j.simpleLogger.log.org.apache.maven.cli.transfer.Slf4jMavenTransferListener=warn'',
        ''--batch-mode'',
        ''clean'', ''install''], None),
      demoState
        \<lparr>world := [''.pipeline/mavenProjectSettings.xml'', ''.pipeline/mavenGlobalSettings.xml'',
                   ''target/app-1.0.jar''],
         trace := [Download ''https://example.org/global.xml'' ''.pipeline/mavenGlobalSettings.xml'',
                   Download ''http://repo/settings.xml'' ''.pipeline/mavenProjectSettings.xml'']\<rparr>)
   \<and> getParametersFromOptions urlOptions (newUtils demoDeps)
        (demoState\<lparr>world := [''.pipeline/mavenGlobalSettings.xml'']\<rparr>) =
     (([''--global-settings'', ''.pipeline/mavenGlobalSettings.xml'',
        ''--settings'', ''.pipeline/mavenProjectSettings.xml'',
        ''-Dmaven.repo.local=/m2'',
        ''--file'', ''pom.xml'',
        ''-X'',
        ''-DskipTests'',
        ''-Dorg.slf4j.simpleLogger.log.org.apache.maven.cli.transfer.Slf4jMavenTransferListener=warn'',
        ''--batch-mode'',
        ''clean'', ''install''], None),
      demoState
        \<lparr>world := [''.pipeline/mavenProjectSettings.xml'', ''.pipeline/mavenGlobalSettings.xml''],
         trace := [Download ''http://repo/settings.xml'' ''.pipeline/mavenProjectSettings.xml'']\<rparr>)
   \<and> getParametersFromOptions urlOptions (newUtils offlineDeps) demoState =
     (([], Some (DownloadFailed ''https://example.org/global.xml''
                   ''.pipeline/mavenGlobalSettings.xml'' (External ''offline''))),
      demoState
        \<lparr>world := [''target/app-1.0.jar''],
         trace := [Download ''https://example.org/global.xml'' ''.pipeline/mavenGlobalSettings.xml'']\<rparr>)"
  proof -
    have sel: "cwd demoState = ''/work''" "world demoState = [''target/app-1.0.jar'']"
      "trace demoState = []"
      by (simp_all add: demoState_def)
    note T1 = settings_downloaded_if_url[of "[]" "newUtils demoDeps" "[]" demoState
        "External ''offline''" urlOptions]
    note T2 = settings_downloaded_if_url[of "[]" "newUtils demoDeps" "[]"
        "demoState\<lparr>world := [''.pipeline/mavenGlobalSettings.xml'']\<rparr>"
        "External ''offline''" urlOptions]
    note T3 = settings_downloaded_if_url[of "[]" "newUtils offlineDeps" "[]" demoState
        "External ''offline''" urlOptions]
    note c7 = conjunct2[THEN conjunct2, THEN conjunct2, THEN conjunct2, THEN conjunct2, THEN conjunct2]
    show ?thesis
      using T1[THEN c7] T2[THEN c7] T3[THEN c7]
      by (simp add: downloadError_def afterDownload_def downloadNeeded_def demo_utils
          url_options_sel sel parameterOrder_def settingsFileName_def)
         (simp add: urlOptions_def demoOptions_def)
  qed
  show ?thesis using helper build by (rule conjI)
qed

section \<open>InstallFile\<close>

text \<open>
  Claim C8. With an empty \<open>pomFile\<close>, \<open>InstallFile\<close> returns an error and leaves the state
  as it is, so the runner is not run. With a non-empty \<open>pomFile\<close> the runner is run once:
  with \<open>-Dfile=\<close> and the pom file when \<open>file\<close> is empty, and otherwise with \<open>-Dfile=\<close> and
  the file, followed by \<open>-Dpackaging=jar\<close> if and only if the file name contains \<open>.jar\<close> and
  by \<open>-Dclassifier=classes\<close> if and only if it contains \<open>-classes\<close>; then \<open>InstallFile\<close>
  returns an error if and only if the runner does.
\<close>

theorem InstallFile_defines:
  "(pomFile = [] \<longrightarrow> InstallFile d file pomFile m2Path command s = (Some PomFileEmpty, s))
   \<and> (pomFile \<noteq> [] \<longrightarrow>
        filter isRun (trace (snd (InstallFile d file pomFile m2Path command s))) =
          filter isRun (trace s) @
          [Run (cwd s) ''mvn''
            ((if m2Path \<noteq> [] then [''-Dmaven.repo.local='' @ m2Path] else [])
             @ [''--file'', pomFile]
             @ (if file = [] then [''-Dfile='' @ pomFile]
                else [''-Dfile='' @ file]
                  @ (if strings_Contains file ''.jar'' then [''-Dpackaging=jar''] else [])
                  @ (if strings_Contains file ''-classes'' then [''-Dclassifier=classes''] else []))
             @ [''-DpomFile='' @ pomFile,
                ''-Dorg.slf4j.simpleLogger.log.org.apache.maven.cli.transfer.Slf4jMavenTransferListener=warn'',
                ''--batch-mode'',
                ''install:install-file''])])
   \<and> (pomFile \<noteq> [] \<longrightarrow>
        (fst (InstallFile d file pomFile m2Path command s) = None) =
        (fst (snd (runnerResult d (installExecuteOptions file pomFile m2Path) command s)) = None))"
proof (intro conjI impI)
  assume "pomFile = []"
  then show "InstallFile d file pomFile m2Path command s = (Some PomFileEmpty, s)"
    by (simp add: InstallFile_def)
next
  assume p: "pomFile \<noteq> []"
  have "filter isRun (trace (snd (InstallFile d file pomFile m2Path command s))) =
      filter isRun (trace s) @
        [Run (cwd s) ''mvn'' (restParameters (installExecuteOptions file pomFile m2Path))]"
    by (simp add: InstallFile_state[OF p] Execute_runs install_builtParameters)
  then show "filter isRun (trace (snd (InstallFile d file pomFile m2Path command s))) =
          filter isRun (trace s) @
          [Run (cwd s) ''mvn''
            ((if m2Path \<noteq> [] then [''-Dmaven.repo.local='' @ m2Path] else [])
             @ [''--file'', pomFile]
             @ (if file = [] then [''-Dfile='' @ pomFile]
                else [''-Dfile='' @ file]
                  @ (if strings_Contains file ''.jar'' then [''-Dpackaging=jar''] else [])
                  @ (if strings_Contains file ''-classes'' then [''-Dclassifier=classes''] else []))
             @ [''-DpomFile='' @ pomFile,
                ''-Dorg.slf4j.simpleLogger.log.org.apache.maven.cli.transfer.Slf4jMavenTransferListener=warn'',
                ''--batch-mode'',
                ''install:install-file''])]"
    using p by (simp add: restParameters_def installExecuteOptions_def installDefines_def)
next
  assume p: "pomFile \<noteq> []"
  show "(fst (InstallFile d file pomFile m2Path command s) = None) =
        (fst (snd (runnerResult d (installExecuteOptions file pomFile m2Path) command s)) = None)"
    using Execute_error[of d "installExecuteOptions file pomFile m2Path" command s]
    by (simp add: InstallFile_eq[OF p] case_prod_beta install_builtParameters
        split: option.splits)
qed

lemma contains_demo:
  "strings_Contains ''target/app-1.0-classes.jar'' ''.jar''"
  "strings_Contains ''target/app-1.0-classes.jar'' ''-classes''"
  "strings_Contains ''target/app-1.0.jar'' ''.jar''"
  "\<not> strings_Contains ''target/app-1.0.jar'' ''-classes''"
  "\<not> strings_Contains ''target/app-1.0.war'' ''.jar''"
  "\<not> strings_Contains ''target/app-1.0.war'' ''-classes''"
  unfolding strings_Contains_def by code_simp+

theorem InstallFile_defines_witness:
  "InstallFile demoDeps ''target/app-1.0.jar'' [] ''/m2'' demoRunner demoState =
     (Some PomFileEmpty, demoState)
   \<and> filter isRun (trace (snd (InstallFile demoDeps ''target/app-1.0-classes.jar'' ''pom.xml''
        ''/m2'' demoRunner demoState))) =
       [Run ''/work'' ''mvn''
         [''-Dmaven.repo.local=/m2'', ''--file'', ''pom.xml'',
          ''-Dfile=target/app-1.0-classes.jar'', ''-Dpackaging=jar'', ''-Dclassifier=classes'',
          ''-DpomFile=pom.xml'',
          ''-Dorg.slf4j.simpleLogger.log.org.apache.maven.cli.transfer.Slf4jMavenTransferListener=warn'',
          ''--batch-mode'',
          ''install:install-file'']]
   \<and> filter isRun (trace (snd (InstallFile demoDeps [] ''pom.xml'' [] demoRunner demoState))) =
       [Run ''/work'' ''mvn''
         [''--file'', ''pom.xml'', ''-Dfile=pom.xml'', ''-DpomFile=pom.xml'',
          ''-Dorg.slf4j.simpleLogger.log.org.apache.maven.cli.transfer.Slf4jMavenTransferListener=warn'',
          ''--batch-mode'',
          ''install:install-file'']]
   \<and> fst (InstallFile demoDeps [] ''pom.xml'' [] demoRunner demoState) = None"
proof -
  have sel: "cwd demoState = ''/work''" "trace demoState = []"
    by (simp_all add: demoState_def)
  show ?thesis
    using
      InstallFile_defines[of "[]" demoDeps "''target/app-1.0.jar''" "''/m2''" demoRunner demoState]
      InstallFile_defines[of "''pom.xml''" demoDeps "''target/app-1.0-classes.jar''" "''/m2''"
        demoRunner demoState]
      InstallFile_defines[of "''pom.xml''" demoDeps "[]" "[]" demoRunner demoState]
    by (simp add: sel contains_demo runnerResult_def demoRunner_def)
qed

section \<open>The flags of the nexusUpload command\<close>

lemma StringVar_fresh:
  "name \<notin> set (map Name (flags cmd)) \<Longrightarrow>
   StringVar p name val usage (cmd, stepConfig) =
     Some (cmd\<lparr>flags := flags cmd @
             [\<lparr>Name = name, Usage = usage, Value = p, DefValue = val, Annotations = []\<rparr>]\<rparr>,
           assign p val stepConfig)"
  by (simp add: StringVar_def)

text \<open>
  Claim C7. The generated command registers exactly ten flags, in this order: \<open>version\<close>,
  \<open>url\<close>, \<open>repository\<close>, \<open>groupId\<close>, \<open>artifactId\<close>, \<open>globalSettingsFile\<close>, \<open>m2Path\<close>,
  \<open>additionalClassifiers\<close>, \<open>user\<close> and \<open>password\<close>. Each is bound to the field of the step
  configuration that carries its name; the default of \<open>version\<close> is \<open>nexus3\<close> and the
  default of every other flag is the environment variable \<open>PIPER_\<close> followed by its name.
  Exactly \<open>url\<close> and \<open>repository\<close> are marked as required.
\<close>

theorem nexusUpload_flags:
  "\<exists>cmd stepConfig.
     NexusUploadCommand getenv = Some (cmd, stepConfig)
     \<and> map (\<lambda>f. (Name f, Value f, DefValue f)) (flags cmd) =
         [(''version'', Ref_Version, ''nexus3''),
          (''url'', Ref_Url, getenv ''PIPER_url''),
          (''repository'', Ref_Repository, getenv ''PIPER_repository''),
          (''groupId'', Ref_GroupID, getenv ''PIPER_groupId''),
          (''artifactId'', Ref_ArtifactID, getenv ''PIPER_artifactId''),
          (''globalSettingsFile'', Ref_GlobalSettingsFile, getenv ''PIPER_globalSettingsFile''),
          (''m2Path'', Ref_M2Path, getenv ''PIPER_m2Path''),
          (''additionalClassifiers'', Ref_AdditionalClassifiers,
             getenv ''PIPER_additionalClassifiers''),
          (''user'', Ref_User, getenv ''PIPER_user''),
          (''password'', Ref_Password, getenv ''PIPER_password'')]
     \<and> map (\<lambda>f. jsonName (Value f)) (flags cmd) = map Name (flags cmd)
     \<and> map Name (filter isRequired (flags cmd)) = [''url'', ''repository'']
     \<and> stepConfig =
         \<lparr>Version = ''nexus3'', Url = getenv ''PIPER_url'',
          Repository = getenv ''PIPER_repository'', GroupID = getenv ''PIPER_groupId'',
          ArtifactID = getenv ''PIPER_artifactId'',
          GlobalSettingsFile = getenv ''PIPER_globalSettingsFile'',
          M2Path = getenv ''PIPER_m2Path'',
          AdditionalClassifiers = getenv ''PIPER_additionalClassifiers'',
          User = getenv ''PIPER_user'', Password = getenv ''PIPER_password''\<rparr>"
  by (simp add: NexusUploadCommand_def addNexusUploadFlags_def StringVar_fresh
      MarkFlagRequired_def isRequired_def BashCompOneRequiredFlag_def)

section \<open>Lemmas: the loop over the modules\<close>

lemma installJarWarArtifacts_stages:
  "installJarWarArtifacts d command utils options s =
     (case Evaluate d options ''project.build.finalName'' command s of
        ((v, Some err), s1) \<Rightarrow> (Some err, s1)
      | ((finalName, None), s1) \<Rightarrow>
          (if finalName = [] then
             InstallFile d [] ''pom.xml'' (EvaluateOptions.M2Path options) command s1
           else
             (case optionalInstall d (fst (FileExists utils (jarFile finalName) (cwd s1) (world s1)))
                     (jarFile finalName) (EvaluateOptions.M2Path options) command s1 of
                (Some err, s2) \<Rightarrow> (Some err, s2)
              | (None, s2) \<Rightarrow>
                  (case optionalInstall d
                          (fst (FileExists utils (warFile finalName) (cwd s1) (world s1)))
                          (warFile finalName) (EvaluateOptions.M2Path options) command s2 of
                     (Some err, s3) \<Rightarrow> (Some err, s3)
                   | (None, s3) \<Rightarrow>
                       optionalInstall d
                         (fst (FileExists utils (classesJarFile finalName) (cwd s1) (world s1)))
                         (classesJarFile finalName) (EvaluateOptions.M2Path options) command s3))))"
  by (simp add: installJarWarArtifacts_def optionalInstall_def Let_def case_prod_beta
      split: option.split)

lemma installJarWarArtifacts_cwd:
  "cwd (snd (installJarWarArtifacts d command utils options s)) = cwd s"
  by (simp add: installJarWarArtifacts_stages case_prod_beta optionalInstall_effects
      InstallFile_cwd Evaluate_cwd split: option.split)

lemma installJarWarArtifacts_chdirs:
  "filter isChdir (trace (snd (installJarWarArtifacts d command utils options s))) =
     filter isChdir (trace s)"
  by (simp add: installJarWarArtifacts_stages case_prod_beta optionalInstall_effects
      InstallFile_chdirs Evaluate_chdirs split: option.split)

lemma installJarWarArtifacts_actions:
  assumes "fst (installJarWarArtifacts d command utils options s) = None"
  shows "filter isAction (trace (snd (installJarWarArtifacts d command utils options s))) =
     filter isAction (trace s) @
       mvnEvaluate options (cwd s) ''project.build.finalName''
       # artifactInstalls (EvaluateOptions.M2Path options) (cwd s)
           (\<lambda>f. fst (FileExists utils f (cwd s)
                   (world (snd (Evaluate d options ''project.build.finalName'' command s)))))
           (fst (fst (Evaluate d options ''project.build.finalName'' command s)))"
proof -
  let ?E = "Evaluate d options ''project.build.finalName'' command s"
  let ?m2 = "EvaluateOptions.M2Path options"
  have ok: "snd (fst ?E) = None"
    using assms by (simp add: installJarWarArtifacts_stages case_prod_beta split: option.splits)
  obtain finalName s1 where E: "?E = ((finalName, None), s1)"
    using ok by (cases ?E) auto
  have c1: "cwd s1 = cwd s"
    using Evaluate_cwd[of d options "''project.build.finalName''" command s] E by simp
  have a1: "filter isAction (trace s1) =
      filter isAction (trace s) @ [mvnEvaluate options (cwd s) ''project.build.finalName'']"
    using Evaluate_actions[OF ok] E by simp
  show ?thesis
  proof (cases "finalName = []")
    case True
    have "installJarWarArtifacts d command utils options s = InstallFile d [] ''pom.xml'' ?m2 command s1"
      using E True by (simp add: installJarWarArtifacts_stages)
    then show ?thesis
      using E True by (simp add: InstallFile_actions a1 c1 artifactInstalls_def)
  next
    case False
    define j where "j = fst (FileExists utils (jarFile finalName) (cwd s1) (world s1))"
    define w where "w = fst (FileExists utils (warFile finalName) (cwd s1) (world s1))"
    define c where "c = fst (FileExists utils (classesJarFile finalName) (cwd s1) (world s1))"
    define r1 where "r1 = optionalInstall d j (jarFile finalName) ?m2 command s1"
    define r2 where "r2 = optionalInstall d w (warFile finalName) ?m2 command (snd r1)"
    define r3 where "r3 = optionalInstall d c (classesJarFile finalName) ?m2 command (snd r2)"
    have unfolded: "installJarWarArtifacts d command utils options s =
        (case fst r1 of Some err \<Rightarrow> (Some err, snd r1)
         | None \<Rightarrow> (case fst r2 of Some err \<Rightarrow> (Some err, snd r2) | None \<Rightarrow> r3))"
      using E False
      by (simp add: installJarWarArtifacts_stages case_prod_beta r1_def r2_def r3_def
          j_def w_def c_def split: option.split)
    have n1: "fst r1 = None" using assms unfolded by (cases "fst r1") simp_all
    have n2: "fst r2 = None" using assms unfolded n1 by (cases "fst r2") simp_all
    have res: "installJarWarArtifacts d command utils options s = r3"
      using unfolded n1 n2 by simp
    have e1: "cwd (snd r1) = cwd s"
      "filter isAction (trace (snd r1)) =
         filter isAction (trace s1) @ (if j then [mvnInstall ?m2 (cwd s) (jarFile finalName)] else [])"
      unfolding r1_def by (simp_all add: optionalInstall_effects c1)
    have e2: "cwd (snd r2) = cwd s"
      "filter isAction (trace (snd r2)) =
         filter isAction (trace (snd r1)) @ (if w then [mvnInstall ?m2 (cwd s) (warFile finalName)] else [])"
      unfolding r2_def by (simp_all add: optionalInstall_effects e1(1))
    have e3: "filter isAction (trace (snd r3)) =
         filter isAction (trace (snd r2)) @
           (if c then [mvnInstall ?m2 (cwd s) (classesJarFile finalName)] else [])"
      unfolding r3_def by (simp add: optionalInstall_effects e2(1))
    show ?thesis
      using False E
      by (simp add: res e3 e2(2) e1(2) a1 artifactInstalls_def c1 j_def w_def c_def)
  qed
qed

lemma callChdir_eq:
  "callChdir utils dir s =
     (fst (chdir utils dir (cwd s) (world s)),
      s\<lparr>cwd := snd (chdir utils dir (cwd s) (world s)), trace := trace s @ [Chdir dir]\<rparr>)"
  by (simp add: callChdir_def case_prod_beta)

lemma installModule_stages:
  "installModule d command options utils old pomFile s =
     (case fst (callChdir utils (path_Dir pomFile) s) of
        Some err \<Rightarrow> (Some err, snd (callChdir utils (path_Dir pomFile) s))
      | None \<Rightarrow>
        (let s1 = snd (callChdir utils (path_Dir pomFile) s);
             P = Evaluate d options ''project.packaging'' command s1
         in case snd (fst P) of
              Some err \<Rightarrow> (Some err, snd P)
            | None \<Rightarrow>
              (let r = packagingStep d command utils options (fst (fst P)) (snd P)
               in case fst r of
                    Some err \<Rightarrow> (Some err, snd r)
                  | None \<Rightarrow> callChdir utils old (snd r))))"
  by (simp add: installModule_def packagingStep_def Let_def case_prod_beta split: option.split)

lemma installModule_success:
  assumes "fst (installModule d command options utils old pomFile s) = None"
  defines "s1 \<equiv> snd (callChdir utils (path_Dir pomFile) s)"
  defines "P \<equiv> Evaluate d options ''project.packaging'' command s1"
  defines "r \<equiv> packagingStep d command utils options (fst (fst P)) (snd P)"
  shows "fst (callChdir utils (path_Dir pomFile) s) = None"
    and "snd (fst P) = None"
    and "fst r = None"
    and "installModule d command options utils old pomFile s = callChdir utils old (snd r)"
    and "fst (callChdir utils old (snd r)) = None"
proof -
  show 1: "fst (callChdir utils (path_Dir pomFile) s) = None"
    using assms(1) by (cases "fst (callChdir utils (path_Dir pomFile) s)")
      (simp_all add: installModule_stages)
  show 2: "snd (fst P) = None"
    using assms(1) 1 unfolding P_def s1_def
    by (cases "snd (fst (Evaluate d options ''project.packaging'' command
                 (snd (callChdir utils (path_Dir pomFile) s))))")
      (simp_all add: installModule_stages Let_def)
  show 3: "fst r = None"
    using assms(1) 1 2 unfolding r_def P_def s1_def
    by (simp add: installModule_stages Let_def split: option.splits)
  show 4: "installModule d command options utils old pomFile s = callChdir utils old (snd r)"
    using 1 2 3 unfolding r_def P_def s1_def
    by (simp add: installModule_stages Let_def)
  show "fst (callChdir utils old (snd r)) = None"
    using assms(1) 4 by simp
qed

lemma packagingStep_frame:
  "cwd (snd (packagingStep d command utils options packaging s)) = cwd s"
  "filter isChdir (trace (snd (packagingStep d command utils options packaging s))) =
     filter isChdir (trace s)"
  by (simp_all add: packagingStep_def InstallFile_cwd InstallFile_chdirs
      installJarWarArtifacts_cwd installJarWarArtifacts_chdirs)

lemma installModule_chdirs:
  assumes "fst (installModule d command options utils old pomFile s) = None"
  shows "filter isChdir (trace (snd (installModule d command options utils old pomFile s))) =
           filter isChdir (trace s) @ [Chdir (path_Dir pomFile), Chdir old]"
  by (simp add: installModule_success(4)[OF assms] callChdir_eq packagingStep_frame
      Evaluate_chdirs)

lemma installModules_chdirs:
  "fst (installModules d command options utils old pomFiles s) = None \<Longrightarrow>
   filter isChdir (trace (snd (installModules d command options utils old pomFiles s))) =
     filter isChdir (trace s) @ concat (map (\<lambda>p. [Chdir (path_Dir p), Chdir old]) pomFiles)"
proof (induction pomFiles arbitrary: s)
  case Nil
  then show ?case by simp
next
  case (Cons pomFile pomFiles)
  let ?m = "installModule d command options utils old pomFile s"
  have m: "fst ?m = None"
    using Cons.prems by (cases ?m; cases "fst ?m") auto
  then have rest: "installModules d command options utils old (pomFile # pomFiles) s =
      installModules d command options utils old pomFiles (snd ?m)"
    by (cases ?m) simp
  have "fst (installModules d command options utils old pomFiles (snd ?m)) = None"
    using Cons.prems rest by simp
  from Cons.IH[OF this] show ?case
    by (simp only: rest installModule_chdirs[OF m]) simp
qed

lemma flattenPom_frame:
  "cwd (snd (flattenPom d command s)) = cwd s"
  "filter isChdir (trace (snd (flattenPom d command s))) = filter isChdir (trace s)"
  by (simp_all add: flattenPom_def Let_def case_prod_beta Execute_cwd Execute_chdirs)

lemma doInstallMavenArtifacts_success:
  assumes "fst (doInstallMavenArtifacts d command options utils s) = None"
  defines "s1 \<equiv> snd (flattenPom d command s)"
  shows "fst (flattenPom d command s) = None"
    and "snd (glob utils ''**/pom.xml'' (cwd s) (world s1)) = None"
    and "snd (getwd utils (cwd s) (world s1)) = None"
    and "doInstallMavenArtifacts d command options utils s =
           installModules d command (options\<lparr>EvaluateOptions.PomPath := ''pom.xml''\<rparr>) utils
             (fst (getwd utils (cwd s) (world s1)))
             (fst (glob utils ''**/pom.xml'' (cwd s) (world s1))) s1"
proof -
  have c: "cwd s1 = cwd s" unfolding s1_def by (simp add: flattenPom_frame)
  show 1: "fst (flattenPom d command s) = None"
    using assms(1) by (cases "fst (flattenPom d command s)")
      (simp_all add: doInstallMavenArtifacts_def case_prod_beta)
  show 2: "snd (glob utils ''**/pom.xml'' (cwd s) (world s1)) = None"
    using assms(1) 1 c unfolding s1_def
    by (cases "snd (glob utils ''**/pom.xml'' (cwd s) (world (snd (flattenPom d command s))))")
      (simp_all add: doInstallMavenArtifacts_def case_prod_beta)
  show 3: "snd (getwd utils (cwd s) (world s1)) = None"
    using assms(1) 1 2 c unfolding s1_def
    by (cases "snd (getwd utils (cwd s) (world (snd (flattenPom d command s))))")
      (simp_all add: doInstallMavenArtifacts_def case_prod_beta)
  show "doInstallMavenArtifacts d command options utils s =
           installModules d command (options\<lparr>EvaluateOptions.PomPath := ''pom.xml''\<rparr>) utils
             (fst (getwd utils (cwd s) (world s1)))
             (fst (glob utils ''**/pom.xml'' (cwd s) (world s1))) s1"
    using 1 2 3 c unfolding s1_def
    by (simp add: doInstallMavenArtifacts_def case_prod_beta)
qed

lemma doInstallMavenArtifacts_chdirs:
  assumes "fst (doInstallMavenArtifacts d command options utils s) = None"
  shows "filter isChdir (trace (snd (doInstallMavenArtifacts d command options utils s))) =
     filter isChdir (trace s) @
       concat (map (\<lambda>p. [Chdir (path_Dir p),
                          Chdir (fst (getwd utils (cwd s) (world (snd (flattenPom d command s)))))])
                 (fst (glob utils ''**/pom.xml'' (cwd s) (world (snd (flattenPom d command s))))))"
proof -
  note eq = doInstallMavenArtifacts_success(4)[OF assms]
  have "fst (installModules d command (options\<lparr>EvaluateOptions.PomPath := ''pom.xml''\<rparr>) utils
             (fst (getwd utils (cwd s) (world (snd (flattenPom d command s)))))
             (fst (glob utils ''**/pom.xml'' (cwd s) (world (snd (flattenPom d command s)))))
             (snd (flattenPom d command s))) = None"
    using assms eq by simp
  from installModules_chdirs[OF this] show ?thesis
    by (simp add: eq flattenPom_frame)
qed

lemma packagingStep_actions:
  assumes "fst (packagingStep d command utils options packaging s) = None"
  shows "filter isAction (trace (snd (packagingStep d command utils options packaging s))) =
     filter isAction (trace s) @
       (if packaging = ''pom'' then [mvnInstall (EvaluateOptions.M2Path options) (cwd s) []]
        else mvnEvaluate options (cwd s) ''project.build.finalName''
          # artifactInstalls (EvaluateOptions.M2Path options) (cwd s)
              (\<lambda>f. fst (FileExists utils f (cwd s)
                      (world (snd (Evaluate d options ''project.build.finalName'' command s)))))
              (fst (fst (Evaluate d options ''project.build.finalName'' command s))))"
proof (cases "packaging = ''pom''")
  case True
  then show ?thesis by (simp add: packagingStep_def InstallFile_actions)
next
  case False
  then have "fst (installJarWarArtifacts d command utils options s) = None"
    using assms by (simp add: packagingStep_def)
  from installJarWarArtifacts_actions[OF this] show ?thesis
    using False by (simp add: packagingStep_def)
qed

lemma installModule_actions:
  assumes "fst (installModule d command options utils old pomFile s) = None"
  shows "filter isAction (trace (snd (installModule d command options utils old pomFile s))) =
     filter isAction (trace s) @
       [Chdir (path_Dir pomFile),
        mvnEvaluate options (snd (chdir utils (path_Dir pomFile) (cwd s) (world s)))
          ''project.packaging'']
       @ (if fst (fst (Evaluate d options ''project.packaging'' command
                        (snd (callChdir utils (path_Dir pomFile) s)))) = ''pom''
          then [mvnInstall (EvaluateOptions.M2Path options)
                  (snd (chdir utils (path_Dir pomFile) (cwd s) (world s))) []]
          else mvnEvaluate options (snd (chdir utils (path_Dir pomFile) (cwd s) (world s)))
                 ''project.build.finalName''
            # artifactInstalls (EvaluateOptions.M2Path options)
                (snd (chdir utils (path_Dir pomFile) (cwd s) (world s)))
                (\<lambda>f. fst (FileExists utils f
                        (snd (chdir utils (path_Dir pomFile) (cwd s) (world s)))
                        (world (snd (Evaluate d options ''project.build.finalName'' command
                          (snd (Evaluate d options ''project.packaging'' command
                            (snd (callChdir utils (path_Dir pomFile) s)))))))))
                (fst (fst (Evaluate d options ''project.build.finalName'' command
                   (snd (Evaluate d options ''project.packaging'' command
                     (snd (callChdir utils (path_Dir pomFile) s))))))))
       @ [Chdir old]"
proof -
  let ?s1 = "snd (callChdir utils (path_Dir pomFile) s)"
  let ?P = "Evaluate d options ''project.packaging'' command ?s1"
  let ?r = "packagingStep d command utils options (fst (fst ?P)) (snd ?P)"
  let ?dir = "snd (chdir utils (path_Dir pomFile) (cwd s) (world s))"
  note ok = installModule_success[OF assms]
  have c1: "cwd ?s1 = ?dir" by (simp add: callChdir_eq)
  have a1: "filter isAction (trace ?s1) = filter isAction (trace s) @ [Chdir (path_Dir pomFile)]"
    by (simp add: callChdir_eq)
  have cP: "cwd (snd ?P) = ?dir" by (simp add: Evaluate_cwd c1)
  have aP: "filter isAction (trace (snd ?P)) =
      filter isAction (trace ?s1) @ [mvnEvaluate options ?dir ''project.packaging'']"
    using Evaluate_actions[OF ok(2)] by (simp only: c1)
  have ar: "filter isAction (trace (snd ?r)) = filter isAction (trace (snd ?P)) @
       (if fst (fst ?P) = ''pom'' then [mvnInstall (EvaluateOptions.M2Path options) ?dir []]
        else mvnEvaluate options ?dir ''project.build.finalName''
          # artifactInstalls (EvaluateOptions.M2Path options) ?dir
              (\<lambda>f. fst (FileExists utils f ?dir
                      (world (snd (Evaluate d options ''project.build.finalName'' command (snd ?P))))))
              (fst (fst (Evaluate d options ''project.build.finalName'' command (snd ?P)))))"
    using packagingStep_actions[OF ok(3)] by (simp only: cP)
  have "filter isAction (trace (snd (installModule d command options utils old pomFile s))) =
      filter isAction (trace (snd ?r)) @ [Chdir old]"
    by (simp add: ok(4) callChdir_eq)
  then show ?thesis by (simp only: ar aP a1) simp
qed

lemma callChdir_newUtils_cwd:
  "fst (callChdir (newUtils d) dir s) = None \<Longrightarrow>
   cwd (snd (callChdir (newUtils d) dir s)) = (if rooted dir then dir else path_Clean (cwd s @ ''/'' @ dir))"
  by (simp add: callChdir_eq newUtils_def os_Chdir_def split: option.splits)

lemma installModule_cwd:
  assumes "fst (installModule d command options (newUtils d) old pomFile s) = None"
    and "rooted old"
  shows "cwd (snd (installModule d command options (newUtils d) old pomFile s)) = old"
  using callChdir_newUtils_cwd[OF installModule_success(5)[OF assms(1)]] assms(2)
  by (simp add: installModule_success(4)[OF assms(1)])

lemma installModules_cwd:
  "fst (installModules d command options (newUtils d) old pomFiles s) = None \<Longrightarrow> rooted old \<Longrightarrow>
   cwd (snd (installModules d command options (newUtils d) old pomFiles s)) =
     (if pomFiles = [] then cwd s else old)"
proof (induction pomFiles arbitrary: s)
  case Nil
  then show ?case by simp
next
  case (Cons pomFile pomFiles)
  let ?m = "installModule d command options (newUtils d) old pomFile s"
  have m: "fst ?m = None"
    using Cons.prems(1) by (cases ?m; cases "fst ?m") auto
  then have rest: "installModules d command options (newUtils d) old (pomFile # pomFiles) s =
      installModules d command options (newUtils d) old pomFiles (snd ?m)"
    by (cases ?m) simp
  have "fst (installModules d command options (newUtils d) old pomFiles (snd ?m)) = None"
    using Cons.prems(1) rest by simp
  from Cons.IH[OF this Cons.prems(2)] show ?case
    by (simp only: rest installModule_cwd[OF m Cons.prems(2)]) simp
qed

lemma installModule_moduleActions:
  assumes "fst (installModule d command options utils old pomFile s) = None"
  shows "filter isAction (trace (snd (installModule d command options utils old pomFile s))) =
     filter isAction (trace s) @ moduleActions d command options utils old pomFile s"
  using installModule_actions[OF assms] by (simp add: moduleActions_def Let_def)

lemma installModules_actions:
  "fst (installModules d command options utils old pomFiles s) = None \<Longrightarrow>
   filter isAction (trace (snd (installModules d command options utils old pomFiles s))) =
     filter isAction (trace s) @ loopActions d command options utils old pomFiles s"
proof (induction pomFiles arbitrary: s)
  case Nil
  then show ?case by simp
next
  case (Cons pomFile pomFiles)
  let ?m = "installModule d command options utils old pomFile s"
  have m: "fst ?m = None"
    using Cons.prems by (cases ?m; cases "fst ?m") auto
  then have rest: "installModules d command options utils old (pomFile # pomFiles) s =
      installModules d command options utils old pomFiles (snd ?m)"
    by (cases ?m) simp
  have "fst (installModules d command options utils old pomFiles (snd ?m)) = None"
    using Cons.prems rest by simp
  from Cons.IH[OF this] show ?case
    by (simp only: rest installModule_moduleActions[OF m] loopActions.simps append_assoc)
qed

lemma flattenPom_actions:
  "filter isAction (trace (snd (flattenPom d command s))) =
     filter isAction (trace s) @ [flattenRun (cwd s)]"
  by (simp add: flattenPom_def Let_def case_prod_beta Execute_actions builtParameters_def
      no_settings_parameters restParameters_def flattenRun_def)

lemma doInstallMavenArtifacts_actions:
  assumes "fst (doInstallMavenArtifacts d command options utils s) = None"
  shows "filter isAction (trace (snd (doInstallMavenArtifacts d command options utils s))) =
     filter isAction (trace s) @
       flattenRun (cwd s)
       # loopActions d command (options\<lparr>EvaluateOptions.PomPath := ''pom.xml''\<rparr>) utils
           (fst (getwd utils (cwd s) (world (snd (flattenPom d command s)))))
           (fst (glob utils ''**/pom.xml'' (cwd s) (world (snd (flattenPom d command s)))))
           (snd (flattenPom d command s))"
proof -
  note eq = doInstallMavenArtifacts_success(4)[OF assms]
  have "fst (installModules d command (options\<lparr>EvaluateOptions.PomPath := ''pom.xml''\<rparr>) utils
             (fst (getwd utils (cwd s) (world (snd (flattenPom d command s)))))
             (fst (glob utils ''**/pom.xml'' (cwd s) (world (snd (flattenPom d command s)))))
             (snd (flattenPom d command s))) = None"
    using assms eq by simp
  from installModules_actions[OF this] show ?thesis
    by (simp add: eq flattenPom_actions)
qed

section \<open>Runs in the concrete environment\<close>

lemma demo_options_sel:
  "EvaluateOptions.GlobalSettingsFile demoEvaluateOptions = []"
  "EvaluateOptions.ProjectSettingsFile demoEvaluateOptions = []"
  "EvaluateOptions.M2Path demoEvaluateOptions = ''/m2''"
  "EvaluateOptions.PomPath demoEvaluateOptions = ''pom.xml''"
  "demoEvaluateOptions\<lparr>EvaluateOptions.PomPath := ''pom.xml''\<rparr> = demoEvaluateOptions"
  by (simp_all add: demoEvaluateOptions_def)

lemma module_packaging:
  "Evaluate d demoEvaluateOptions ''project.packaging'' moduleRunner s =
     ((if cwd s = ''/work/app'' then ''jar'' else ''pom'', None),
      s\<lparr>stdoutWriter := MultiWriter LogWriter (BufferWriter (length (buffers s))),
        stderrWriter := LogWriter,
        buffers := buffers s @ [if cwd s = ''/work/app'' then ''jar'' else ''pom''],
        logged := logged s @ [if cwd s = ''/work/app'' then ''jar'' else ''pom''],
        trace := trace s @ [mvnEvaluate demoEvaluateOptions (cwd s) ''project.packaging'']\<rparr>)"
  by (simp add: Evaluate_eq Execute_plain_eval evaluateExecuteOptions_def demoEvaluateOptions_def
      restParameters_def parameterOrder_def moduleRunner_def stdoutBytes_def strings_HasPrefix_def
      mvnEvaluate_def)

lemma module_finalName:
  "Evaluate d demoEvaluateOptions ''project.build.finalName'' moduleRunner s =
     ((''app-1.0'', None),
      s\<lparr>stdoutWriter := MultiWriter LogWriter (BufferWriter (length (buffers s))),
        stderrWriter := LogWriter,
        buffers := buffers s @ [''app-1.0''],
        logged := logged s @ [''app-1.0''],
        trace := trace s @ [mvnEvaluate demoEvaluateOptions (cwd s) ''project.build.finalName'']\<rparr>)"
  by (simp add: Evaluate_eq Execute_plain_eval evaluateExecuteOptions_def demoEvaluateOptions_def
      restParameters_def parameterOrder_def moduleRunner_def stdoutBytes_def strings_HasPrefix_def
      mvnEvaluate_def)

lemma last_install:
  "last (restParameters (installExecuteOptions fl ''pom.xml'' m2Path)) = ''install:install-file''"
  by (simp add: restParameters_def installExecuteOptions_def)

lemma module_install:
  "InstallFile d fl ''pom.xml'' m2Path moduleRunner s =
     (None,
      s\<lparr>stdoutWriter := LogWriter, stderrWriter := LogWriter,
        logged := logged s @ [''BUILD SUCCESS''],
        trace := trace s @ [mvnInstall m2Path (cwd s) fl]\<rparr>)"
proof -
  have o: "ExecuteOptions.GlobalSettingsFile (installExecuteOptions fl ''pom.xml'' m2Path) = []"
    "ExecuteOptions.ProjectSettingsFile (installExecuteOptions fl ''pom.xml'' m2Path) = []"
    "\<not> ReturnStdout (installExecuteOptions fl ''pom.xml'' m2Path)"
    by (simp_all add: installExecuteOptions_def)
  have r: "moduleRunner ''mvn'' (restParameters (installExecuteOptions fl ''pom.xml'' m2Path)) c w =
      ([(ToStderr, ''BUILD SUCCESS'')], None, w)" for c w
    by (simp add: moduleRunner_def last_install)
  show ?thesis
    by (simp add: InstallFile_eq Execute_plain_eval o r mvnInstall_def install_parameterOrder)
qed

lemma module_flatten:
  "flattenPom d moduleRunner s =
     (None,
      s\<lparr>stdoutWriter := LogWriter, stderrWriter := LogWriter,
        logged := logged s @ [''BUILD SUCCESS''],
        trace := trace s @
          [Run (cwd s) ''mvn''
            [''--file'', ''pom.xml'', ''-Dflatten.mode=resolveCiFriendliesOnly'',
             ''-Dorg.slf4j.simpleLogger.log.org.apache.maven.cli.transfer.Slf4jMavenTransferListener=warn'',
             ''--batch-mode'', ''flatten:flatten'']]\<rparr>)"
  by (simp add: flattenPom_def Execute_plain_eval restParameters_def moduleRunner_def)

lemma demo_utils_chdir:
  "chdir (newUtils demoDeps) dir c w = (None, if rooted dir then dir else path_Clean (c @ ''/'' @ dir))"
  "getwd (newUtils demoDeps) c w = (c, None)"
  "glob (newUtils demoDeps) pattern c w = ([''pom.xml'', ''app/pom.xml''], None)"
  by (simp_all add: newUtils_def demoDeps_def os_Chdir_def os_Getwd_def)

lemma demo_dirs:
  "path_Dir ''pom.xml'' = ''.''" "path_Dir ''app/pom.xml'' = ''app''"
  "rooted ''/work''" "\<not> rooted ''.''" "\<not> rooted ''app''"
  "path_Clean ''/work/.'' = ''/work''" "path_Clean ''/work/app'' = ''/work/app''"
  by (simp_all add: path_Dir_def path_Clean_def rooted_def cleanStep_def)

lemma demo_exists:
  "FileExists (newUtils demoDeps) f c w = (f \<in> set w, None)"
  by (simp add: newUtils_def demoDeps_def)

lemma demo_jar_module:
  "installJarWarArtifacts demoDeps moduleRunner (newUtils demoDeps) demoEvaluateOptions s =
     (None, snd (installJarWarArtifacts demoDeps moduleRunner (newUtils demoDeps) demoEvaluateOptions s))
   \<and> world (snd (installJarWarArtifacts demoDeps moduleRunner (newUtils demoDeps)
        demoEvaluateOptions s)) = world s"
  by (simp add: installJarWarArtifacts_def module_finalName module_install demo_options_sel Let_def)

lemma demo_module_ok:
  "fst (installModule demoDeps moduleRunner demoEvaluateOptions (newUtils demoDeps) old pomFile s) = None
   \<and> world (snd (installModule demoDeps moduleRunner demoEvaluateOptions (newUtils demoDeps)
        old pomFile s)) = world s"
proof -
  define s' where "s' t = snd (installJarWarArtifacts demoDeps moduleRunner (newUtils demoDeps)
      demoEvaluateOptions t)" for t
  have j: "installJarWarArtifacts demoDeps moduleRunner (newUtils demoDeps)
      demoEvaluateOptions t = (None, s' t)" for t
    unfolding s'_def using demo_jar_module[of t] by simp
  have w: "world (s' t) = world t" for t
    unfolding s'_def using demo_jar_module[of t] by simp
  show ?thesis
    by (simp add: installModule_def callChdir_def demo_utils_chdir module_packaging
        module_install demo_options_sel j w Let_def)
qed

lemma demo_run_ok:
  "fst (doInstallMavenArtifacts demoDeps moduleRunner demoEvaluateOptions (newUtils demoDeps)
         demoState) = None"
proof -
  define m where "m old pomFile t =
      snd (installModule demoDeps moduleRunner demoEvaluateOptions (newUtils demoDeps) old pomFile t)"
    for old pomFile t
  have i: "installModule demoDeps moduleRunner demoEvaluateOptions (newUtils demoDeps) old pomFile t
      = (None, m old pomFile t)" for old pomFile t
    unfolding m_def using demo_module_ok[of old pomFile t]
    by (cases "installModule demoDeps moduleRunner demoEvaluateOptions (newUtils demoDeps) old pomFile t")
       simp
  show ?thesis
    by (simp add: doInstallMavenArtifacts_def module_flatten demo_utils_chdir demo_options_sel i)
qed

lemma demo_module_state:
  "cwd (snd (installModule demoDeps moduleRunner demoEvaluateOptions (newUtils demoDeps)
        ''/work'' pomFile s)) = ''/work''"
  "world (snd (installModule demoDeps moduleRunner demoEvaluateOptions (newUtils demoDeps)
        ''/work'' pomFile s)) = world s"
proof -
  have ok: "fst (installModule demoDeps moduleRunner demoEvaluateOptions (newUtils demoDeps)
        ''/work'' pomFile s) = None"
    using demo_module_ok by blast
  show "cwd (snd (installModule demoDeps moduleRunner demoEvaluateOptions (newUtils demoDeps)
        ''/work'' pomFile s)) = ''/work''"
    by (rule installModule_cwd[OF ok]) (simp add: demo_dirs)
  show "world (snd (installModule demoDeps moduleRunner demoEvaluateOptions (newUtils demoDeps)
        ''/work'' pomFile s)) = world s"
    using demo_module_ok by blast
qed

lemma emptyName_packaging:
  "Evaluate d demoEvaluateOptions ''project.packaging'' emptyNameRunner s =
     ((''jar'', None),
      s\<lparr>stdoutWriter := MultiWriter LogWriter (BufferWriter (length (buffers s))),
        stderrWriter := LogWriter,
        buffers := buffers s @ [''jar''],
        logged := logged s @ [''jar''],
        trace := trace s @ [mvnEvaluate demoEvaluateOptions (cwd s) ''project.packaging'']\<rparr>)"
  by (simp add: Evaluate_eq Execute_plain_eval evaluateExecuteOptions_def demoEvaluateOptions_def
      restParameters_def parameterOrder_def emptyNameRunner_def stdoutBytes_def
      strings_HasPrefix_def mvnEvaluate_def)

lemma emptyName_finalName:
  "Evaluate d demoEvaluateOptions ''project.build.finalName'' emptyNameRunner s =
     (([], None),
      s\<lparr>stdoutWriter := MultiWriter LogWriter (BufferWriter (length (buffers s))),
        stderrWriter := LogWriter,
        buffers := buffers s @ [[]],
        trace := trace s @ [mvnEvaluate demoEvaluateOptions (cwd s) ''project.build.finalName'']\<rparr>)"
  by (simp add: Evaluate_eq Execute_plain_eval evaluateExecuteOptions_def demoEvaluateOptions_def
      restParameters_def parameterOrder_def emptyNameRunner_def stdoutBytes_def
      strings_HasPrefix_def mvnEvaluate_def)

lemma emptyName_install:
  "InstallFile d [] ''pom.xml'' ''/m2'' emptyNameRunner s =
     (None,
      s\<lparr>stdoutWriter := LogWriter, stderrWriter := LogWriter,
        trace := trace s @ [mvnInstall ''/m2'' (cwd s) []]\<rparr>)"
  by (simp add: InstallFile_eq Execute_plain_eval installExecuteOptions_def installDefines_def
      restParameters_def parameterOrder_def emptyNameRunner_def mvnInstall_def)

lemma emptyName_flatten:
  "flattenPom d emptyNameRunner s =
     (None,
      s\<lparr>stdoutWriter := LogWriter, stderrWriter := LogWriter,
        trace := trace s @
          [Run (cwd s) ''mvn''
            [''--file'', ''pom.xml'', ''-Dflatten.mode=resolveCiFriendliesOnly'',
             ''-Dorg.slf4j.simpleLogger.log.org.apache.maven.cli.transfer.Slf4jMavenTransferListener=warn'',
             ''--batch-mode'', ''flatten:flatten'']]\<rparr>)"
  by (simp add: flattenPom_def Execute_plain_eval restParameters_def emptyNameRunner_def)

lemma singleModule_utils:
  "chdir (newUtils singleModuleDeps) dir c w = (None, if rooted dir then dir else path_Clean (c @ ''/'' @ dir))"
  "getwd (newUtils singleModuleDeps) c w = (c, None)"
  "glob (newUtils singleModuleDeps) pattern c w = ([''pom.xml''], None)"
  "FileExists (newUtils singleModuleDeps) f c w = (f \<in> set w, None)"
  by (simp_all add: newUtils_def singleModuleDeps_def demoDeps_def os_Chdir_def os_Getwd_def)

lemma emptyName_run:
  "doInstallMavenArtifacts singleModuleDeps emptyNameRunner demoEvaluateOptions
     (newUtils singleModuleDeps) emptyNameState =
   (None,
    \<lparr>cwd = ''/work'', world = [''target/.jar''],
     stdoutWriter = LogWriter, stderrWriter = LogWriter,
     buffers = [''jar'', []], logged = [''jar''],
     trace =
       [Run ''/work'' ''mvn''
          [''--file'', ''pom.xml'', ''-Dflatten.mode=resolveCiFriendliesOnly'',
           ''-Dorg.slf4j.simpleLogger.log.org.apache.maven.cli.transfer.Slf4jMavenTransferListener=warn'',
           ''--batch-mode'', ''flatten:flatten''],
        Chdir ''.'',
        Run ''/work'' ''mvn''
          [''-Dmaven.repo.local=/m2'', ''--file'', ''pom.xml'',
           ''-Dexpression=project.packaging'', ''-DforceStdout'', ''-q'',
           ''-Dorg.slf4j.simpleLogger.log.org.apache.maven.cli.transfer.Slf4jMavenTransferListener=warn'',
           ''--batch-mode'',
           ''org.apache.maven.plugins:maven-help-plugin:3.1.0:evaluate''],
        Run ''/work'' ''mvn''
          [''-Dmaven.repo.local=/m2'', ''--file'', ''pom.xml'',
           ''-Dexpression=project.build.finalName'', ''-DforceStdout'', ''-q'',
           ''-Dorg.slf4j.simpleLogger.log.org.apache.maven.cli.transfer.Slf4jMavenTransferListener=warn'',
           ''--batch-mode'',
           ''org.apache.maven.plugins:maven-help-plugin:3.1.0:evaluate''],
        Run ''/work'' ''mvn''
          [''-Dmaven.repo.local=/m2'', ''--file'', ''pom.xml'',
           ''-Dfile=pom.xml'', ''-DpomFile=pom.xml'',
           ''-Dorg.slf4j.simpleLogger.log.org.apache.maven.cli.transfer.Slf4jMavenTransferListener=warn'',
           ''--batch-mode'',
           ''install:install-file''],
        Chdir ''/work'']\<rparr>)"
  by (simp add: doInstallMavenArtifacts_def emptyName_flatten singleModule_utils demo_options_sel
      installModule_def callChdir_def demo_dirs emptyName_packaging installJarWarArtifacts_def
      emptyName_finalName emptyName_install Let_def emptyNameState_def demoState_def
      mvnEvaluate_def mvnInstall_def parameterOrder_def evaluateExecuteOptions_def
      installExecuteOptions_def installDefines_def)

section \<open>Installing the modules\<close>

text \<open>
  Claim C2, as amended. A run of \<open>doInstallMavenArtifacts\<close> that returns no error is the
  loop over the pom files that the pattern \<open>**/pom.xml\<close> matched, in the order of the match
  (the loop stops at the first error). Apart from downloads of settings, what the whole run
  does is the run of \<open>flatten:flatten\<close> followed, for each pom file in that order, by the
  actions of its pass (\<open>loopActions\<close>); in particular its changes of directory are, for
  each pom file in that order, one to the directory of the pom file and one back to the
  directory that was current before the loop. A pass of the loop that returns no error does
  this, in this order, and nothing else but downloads of settings: it changes to the
  directory of the pom file; it evaluates \<open>project.packaging\<close> there; when the packaging is
  \<open>pom\<close> it installs the pom file only; otherwise it evaluates \<open>project.build.finalName\<close>
  and, when that is empty, installs the pom file only, and, when it is not empty, installs
  \<open>target/<finalName>.jar\<close>, \<open>target/<finalName>.war\<close> and
  \<open>target/<finalName>-classes.jar\<close>, in this order, each if and only if the file exists;
  it changes back to the original directory.
\<close>

theorem modules_installed_in_glob_order:
  "(fst (doInstallMavenArtifacts d command options utils s) = None \<longrightarrow>
      doInstallMavenArtifacts d command options utils s =
        installModules d command (options\<lparr>EvaluateOptions.PomPath := ''pom.xml''\<rparr>) utils
          (fst (getwd utils (cwd s) (world (snd (flattenPom d command s)))))
          (fst (glob utils ''**/pom.xml'' (cwd s) (world (snd (flattenPom d command s)))))
          (snd (flattenPom d command s))
      \<and> filter isChdir (trace (snd (doInstallMavenArtifacts d command options utils s))) =
          filter isChdir (trace s) @
          concat (map (\<lambda>p. [Chdir (path_Dir p),
                             Chdir (fst (getwd utils (cwd s) (world (snd (flattenPom d command s)))))])
                    (fst (glob utils ''**/pom.xml'' (cwd s) (world (snd (flattenPom d command s))))))
      \<and> filter isAction (trace (snd (doInstallMavenArtifacts d command options utils s))) =
          filter isAction (trace s) @
          flattenRun (cwd s)
          # loopActions d command (options\<lparr>EvaluateOptions.PomPath := ''pom.xml''\<rparr>) utils
              (fst (getwd utils (cwd s) (world (snd (flattenPom d command s)))))
              (fst (glob utils ''**/pom.xml'' (cwd s) (world (snd (flattenPom d command s)))))
              (snd (flattenPom d command s)))
   \<and> (fst (installModule d command options utils old pomFile s) = None \<longrightarrow>
        filter isAction (trace (snd (installModule d command options utils old pomFile s))) =
          filter isAction (trace s) @
          [Chdir (path_Dir pomFile),
           mvnEvaluate options (snd (chdir utils (path_Dir pomFile) (cwd s) (world s)))
             ''project.packaging'']
          @ (if fst (fst (Evaluate d options ''project.packaging'' command
                           (snd (callChdir utils (path_Dir pomFile) s)))) = ''pom''
             then [mvnInstall (EvaluateOptions.M2Path options)
                     (snd (chdir utils (path_Dir pomFile) (cwd s) (world s))) []]
             else mvnEvaluate options (snd (chdir utils (path_Dir pomFile) (cwd s) (world s)))
                    ''project.build.finalName''
               # artifactInstalls (EvaluateOptions.M2Path options)
                   (snd (chdir utils (path_Dir pomFile) (cwd s) (world s)))
                   (\<lambda>f. fst (FileExists utils f
                           (snd (chdir utils (path_Dir pomFile) (cwd s) (world s)))
                           (world (snd (Evaluate d options ''project.build.finalName'' command
                             (snd (Evaluate d options ''project.packaging'' command
                               (snd (callChdir utils (path_Dir pomFile) s)))))))))
                   (fst (fst (Evaluate d options ''project.build.finalName'' command
                      (snd (Evaluate d options ''project.packaging'' command
                        (snd (callChdir utils (path_Dir pomFile) s))))))))
          @ [Chdir old])"
proof (intro conjI impI)
  assume a: "fst (doInstallMavenArtifacts d command options utils s) = None"
  show "doInstallMavenArtifacts d command options utils s =
        installModules d command (options\<lparr>EvaluateOptions.PomPath := ''pom.xml''\<rparr>) utils
          (fst (getwd utils (cwd s) (world (snd (flattenPom d command s)))))
          (fst (glob utils ''**/pom.xml'' (cwd s) (world (snd (flattenPom d command s)))))
          (snd (flattenPom d command s))"
    by (rule doInstallMavenArtifacts_success(4)[OF a])
  show "filter isChdir (trace (snd (doInstallMavenArtifacts d command options utils s))) =
          filter isChdir (trace s) @
          concat (map (\<lambda>p. [Chdir (path_Dir p),
                             Chdir (fst (getwd utils (cwd s) (world (snd (flattenPom d command s)))))])
                    (fst (glob utils ''**/pom.xml'' (cwd s) (world (snd (flattenPom d command s))))))"
    by (rule doInstallMavenArtifacts_chdirs[OF a])
  show "filter isAction (trace (snd (doInstallMavenArtifacts d command options utils s))) =
          filter isAction (trace s) @
          flattenRun (cwd s)
          # loopActions d command (options\<lparr>EvaluateOptions.PomPath := ''pom.xml''\<rparr>) utils
              (fst (getwd utils (cwd s) (world (snd (flattenPom d command s)))))
              (fst (glob utils ''**/pom.xml'' (cwd s) (world (snd (flattenPom d command s)))))
              (snd (flattenPom d command s))"
    by (rule doInstallMavenArtifacts_actions[OF a])
next
  assume a: "fst (installModule d command options utils old pomFile s) = None"
  show "filter isAction (trace (snd (installModule d command options utils old pomFile s))) =
          filter isAction (trace s) @
          [Chdir (path_Dir pomFile),
           mvnEvaluate options (snd (chdir utils (path_Dir pomFile) (cwd s) (world s)))
             ''project.packaging'']
          @ (if fst (fst (Evaluate d options ''project.packaging'' command
                           (snd (callChdir utils (path_Dir pomFile) s)))) = ''pom''
             then [mvnInstall (EvaluateOptions.M2Path options)
                     (snd (chdir utils (path_Dir pomFile) (cwd s) (world s))) []]
             else mvnEvaluate options (snd (chdir utils (path_Dir pomFile) (cwd s) (world s)))
                    ''project.build.finalName''
               # artifactInstalls (EvaluateOptions.M2Path options)
                   (snd (chdir utils (path_Dir pomFile) (cwd s) (world s)))
                   (\<lambda>f. fst (FileExists utils f
                           (snd (chdir utils (path_Dir pomFile) (cwd s) (world s)))
                           (world (snd (Evaluate d options ''project.build.finalName'' command
                             (snd (Evaluate d options ''project.packaging'' command
                               (snd (callChdir utils (path_Dir pomFile) s)))))))))
                   (fst (fst (Evaluate d options ''project.build.finalName'' command
                      (snd (Evaluate d options ''project.packaging'' command
                        (snd (callChdir utils (path_Dir pomFile) s))))))))
          @ [Chdir old]"
    by (rule installModule_actions[OF a])
qed

theorem modules_installed_in_glob_order_witness:
  "fst (doInstallMavenArtifacts demoDeps moduleRunner demoEvaluateOptions (newUtils demoDeps)
         demoState) = None
   \<and> filter isChdir (trace (snd (doInstallMavenArtifacts demoDeps moduleRunner demoEvaluateOptions
        (newUtils demoDeps) demoState))) =
       [Chdir ''.'', Chdir ''/work'', Chdir ''app'', Chdir ''/work'']
   \<and> filter isAction (trace (snd (doInstallMavenArtifacts demoDeps moduleRunner demoEvaluateOptions
        (newUtils demoDeps) demoState))) =
       [Run ''/work'' ''mvn''
          [''--file'', ''pom.xml'', ''-Dflatten.mode=resolveCiFriendliesOnly'',
           ''-Dorg.slf4j.simpleLogger.log.org.apache.maven.cli.transfer.Slf4jMavenTransferListener=warn'',
           ''--batch-mode'', ''flatten:flatten''],
        Chdir ''.'',
        Run ''/work'' ''mvn''
          [''-Dmaven.repo.local=/m2'', ''--file'', ''pom.xml'',
           ''-Dexpression=project.packaging'', ''-DforceStdout'', ''-q'',
           ''-Dorg.slf4j.simpleLogger.log.org.apache.maven.cli.transfer.Slf4jMavenTransferListener=warn'',
           ''--batch-mode'',
           ''org.apache.maven.plugins:maven-help-plugin:3.1.0:evaluate''],
        Run ''/work'' ''mvn''
          [''-Dmaven.repo.local=/m2'', ''--file'', ''pom.xml'',
           ''-Dfile=pom.xml'', ''-DpomFile=pom.xml'',
           ''-Dorg.slf4j.simpleLogger.log.org.apache.maven.cli.transfer.Slf4jMavenTransferListener=warn'',
           ''--batch-mode'',
           ''install:install-file''],
        Chdir ''/work'',
        Chdir ''app'',
        Run ''/work/app'' ''mvn''
          [''-Dmaven.repo.local=/m2'', ''--file'', ''pom.xml'',
           ''-Dexpression=project.packaging'', ''-DforceStdout'', ''-q'',
           ''-Dorg.slf4j.simpleLogger.log.org.apache.maven.cli.transfer.Slf4jMavenTransferListener=warn'',
           ''--batch-mode'',
           ''org.apache.maven.plugins:maven-help-plugin:3.1.0:evaluate''],
        Run ''/work/app'' ''mvn''
          [''-Dmaven.repo.local=/m2'', ''--file'', ''pom.xml'',
           ''-Dexpression=project.build.finalName'', ''-DforceStdout'', ''-q'',
           ''-Dorg.slf4j.simpleLogger.log.org.apache.maven.cli.transfer.Slf4jMavenTransferListener=warn'',
           ''--batch-mode'',
           ''org.apache.maven.plugins:maven-help-plugin:3.1.0:evaluate''],
        Run ''/work/app'' ''mvn''
          [''-Dmaven.repo.local=/m2'', ''--file'', ''pom.xml'',
           ''-Dfile=target/app-1.0.jar'', ''-Dpackaging=jar'', ''-DpomFile=pom.xml'',
           ''-Dorg.slf4j.simpleLogger.log.org.apache.maven.cli.transfer.Slf4jMavenTransferListener=warn'',
           ''--batch-mode'',
           ''install:install-file''],
        Chdir ''/work'']
   \<and> fst (installModule demoDeps moduleRunner demoEvaluateOptions (newUtils demoDeps)
         ''/work'' ''app/pom.xml'' demoState) = None
   \<and> filter isAction (trace (snd (installModule demoDeps moduleRunner demoEvaluateOptions
        (newUtils demoDeps) ''/work'' ''app/pom.xml'' demoState))) =
       [Chdir ''app'',
        Run ''/work/app'' ''mvn''
          [''-Dmaven.repo.local=/m2'', ''--file'', ''pom.xml'',
           ''-Dexpression=project.packaging'', ''-DforceStdout'', ''-q'',
           ''-Dorg.slf4j.simpleLogger.log.org.apache.maven.cli.transfer.Slf4jMavenTransferListener=warn'',
           ''--batch-mode'',
           ''org.apache.maven.plugins:maven-help-plugin:3.1.0:evaluate''],
        Run ''/work/app'' ''mvn''
          [''-Dmaven.repo.local=/m2'', ''--file'', ''pom.xml'',
           ''-Dexpression=project.build.finalName'', ''-DforceStdout'', ''-q'',
           ''-Dorg.slf4j.simpleLogger.log.org.apache.maven.cli.transfer.Slf4jMavenTransferListener=warn'',
           ''--batch-mode'',
           ''org.apache.maven.plugins:maven-help-plugin:3.1.0:evaluate''],
        Run ''/work/app'' ''mvn''
          [''-Dmaven.repo.local=/m2'', ''--file'', ''pom.xml'',
           ''-Dfile=target/app-1.0.jar'', ''-Dpackaging=jar'', ''-DpomFile=pom.xml'',
           ''-Dorg.slf4j.simpleLogger.log.org.apache.maven.cli.transfer.Slf4jMavenTransferListener=warn'',
           ''--batch-mode'',
           ''install:install-file''],
        Chdir ''/work'']"
proof -
  have m: "fst (installModule demoDeps moduleRunner demoEvaluateOptions (newUtils demoDeps)
         ''/work'' ''app/pom.xml'' demoState) = None"
    using demo_module_ok by blast
  have sel: "cwd demoState = ''/work''" "trace demoState = []"
    "world demoState = [''target/app-1.0.jar'']"
    by (simp_all add: demoState_def)
  have c: "strings_Contains ''target/app-1.0.jar'' ''.jar''"
    "\<not> strings_Contains ''target/app-1.0.jar'' ''-classes''"
    unfolding strings_Contains_def by code_simp+
  note T = modules_installed_in_glob_order[of demoDeps moduleRunner demoEvaluateOptions
        "newUtils demoDeps" demoState "''/work''" "''app/pom.xml''"]
  show ?thesis
    using demo_run_ok m
      T[THEN conjunct1, THEN mp, OF demo_run_ok, THEN conjunct2]
      T[THEN conjunct2, THEN mp, OF m]
    by (simp add: sel demo_utils_chdir demo_dirs module_flatten module_packaging callChdir_def
        flattenRun_def moduleActions_def Let_def demo_module_state
        module_finalName demo_exists demo_options_sel artifactInstalls_def mvnEvaluate_def
        mvnInstall_def parameterOrder_def evaluateExecuteOptions_def installExecuteOptions_def
        installDefines_def jarFile_def warFile_def classesJarFile_def c)
qed

text \<open>
  Claim C2, as stated, fails where \<open>project.build.finalName\<close> evaluates to the empty
  string. In the run below the packaging is \<open>jar\<close>, the final name is empty and the file
  \<open>target/.jar\<close> exists: the claim has the jar installed (\<open>claimedInstalls\<close>), the code
  installs the pom file only.
\<close>

theorem empty_finalName_counterexample:
  "fst (doInstallMavenArtifacts singleModuleDeps emptyNameRunner demoEvaluateOptions
         (newUtils singleModuleDeps) emptyNameState) = None
   \<and> trace (snd (doInstallMavenArtifacts singleModuleDeps emptyNameRunner demoEvaluateOptions
         (newUtils singleModuleDeps) emptyNameState)) =
       [Run ''/work'' ''mvn''
          [''--file'', ''pom.xml'', ''-Dflatten.mode=resolveCiFriendliesOnly'',
           ''-Dorg.slf4j.simpleLogger.log.org.apache.maven.cli.transfer.Slf4jMavenTransferListener=warn'',
           ''--batch-mode'', ''flatten:flatten''],
        Chdir ''.'',
        Run ''/work'' ''mvn''
          [''-Dmaven.repo.local=/m2'', ''--file'', ''pom.xml'',
           ''-Dexpression=project.packaging'', ''-DforceStdout'', ''-q'',
           ''-Dorg.slf4j.simpleLogger.log.org.apache.maven.cli.transfer.Slf4jMavenTransferListener=warn'',
           ''--batch-mode'',
           ''org.apache.maven.plugins:maven-help-plugin:3.1.0:evaluate''],
        Run ''/work'' ''mvn''
          [''-Dmaven.repo.local=/m2'', ''--file'', ''pom.xml'',
           ''-Dexpression=project.build.finalName'', ''-DforceStdout'', ''-q'',
           ''-Dorg.slf4j.simpleLogger.log.org.apache.maven.cli.transfer.Slf4jMavenTransferListener=warn'',
           ''--batch-mode'',
           ''org.apache.maven.plugins:maven-help-plugin:3.1.0:evaluate''],
        Run ''/work'' ''mvn''
          [''-Dmaven.repo.local=/m2'', ''--file'', ''pom.xml'',
           ''-Dfile=pom.xml'', ''-DpomFile=pom.xml'',
           ''-Dorg.slf4j.simpleLogger.log.org.apache.maven.cli.transfer.Slf4jMavenTransferListener=warn'',
           ''--batch-mode'',
           ''install:install-file''],
        Chdir ''/work'']
   \<and> buffers (snd (doInstallMavenArtifacts singleModuleDeps emptyNameRunner demoEvaluateOptions
         (newUtils singleModuleDeps) emptyNameState)) = [''jar'', []]
   \<and> fst (FileExists (newUtils singleModuleDeps) (jarFile []) ''/work'' [''target/.jar''])
   \<and> installedFiles (trace (snd (doInstallMavenArtifacts singleModuleDeps emptyNameRunner
         demoEvaluateOptions (newUtils singleModuleDeps) emptyNameState))) = [''pom.xml'']
   \<and> claimedInstalls ''jar'' (newUtils singleModuleDeps) ''/work'' [''target/.jar''] [] =
       [''target/.jar'']"
  by (simp add: emptyName_run singleModule_utils jarFile_def warFile_def classesJarFile_def
      installedFiles_def claimedInstalls_def List.map_filter_simps)

section \<open>The working directory\<close>

text \<open>
  Claim C9. With the utilities of \<open>newUtils\<close> (\<open>os.Getwd\<close> and \<open>os.Chdir\<close>) and a rooted
  working directory, as \<open>os.Getwd\<close> reports it, a run of \<open>doInstallMavenArtifacts\<close> that
  returns no error leaves the working directory that was current on entry, however many
  modules it visited.
\<close>

theorem working_directory_restored:
  assumes "rooted (cwd s)"
    and "fst (doInstallMavenArtifacts d command options (newUtils d) s) = None"
  shows "cwd (snd (doInstallMavenArtifacts d command options (newUtils d) s)) = cwd s"
proof -
  let ?s1 = "snd (flattenPom d command s)"
  let ?old = "fst (getwd (newUtils d) (cwd s) (world ?s1))"
  note ok = doInstallMavenArtifacts_success[OF assms(2)]
  have old: "?old = cwd s"
    using ok(3) by (simp add: newUtils_def os_Getwd_def split: option.splits)
  have "fst (installModules d command (options\<lparr>EvaluateOptions.PomPath := ''pom.xml''\<rparr>)
               (newUtils d) ?old (fst (glob (newUtils d) ''**/pom.xml'' (cwd s) (world ?s1))) ?s1) = None"
    using assms(2) ok(4) by simp
  from installModules_cwd[OF this] show ?thesis
    using assms(1) by (simp add: ok(4) old flattenPom_frame)
qed

theorem working_directory_restored_witness:
  "rooted (cwd demoState)
   \<and> fst (doInstallMavenArtifacts demoDeps moduleRunner demoEvaluateOptions (newUtils demoDeps)
         demoState) = None
   \<and> cwd (snd (doInstallMavenArtifacts demoDeps moduleRunner demoEvaluateOptions
        (newUtils demoDeps) demoState)) = ''/work''"
proof -
  have r: "rooted (cwd demoState)" by (simp add: demoState_def rooted_def)
  show ?thesis
    using r demo_run_ok working_directory_restored[OF r demo_run_ok]
    by (simp add: demoState_def)
qed

end
